theory Spec2Isabelle
  imports Complex_Main "HOL-Library.Multiset" "HOL-Library.Char_ord" "HOL-Library.List_Lexorder"
    "HOL-Library.Word"
begin

unbundle bit_operations_syntax

section \<open>Data model\<close>

text \<open>
  The controller is the React component \<open>App\<close>. Its \<open>useState\<close> cells and \<open>useRef\<close>
  boxes are the fields of one record; every handler is a function from that record to
  the updated record. JavaScript numbers are modelled as real numbers; a result that
  JavaScript would compute as \<open>Infinity\<close> or \<open>NaN\<close> (division by zero) is the value
  \<open>NonFinite\<close>. Storing into a \<open>Float32Array\<close> rounds to single precision; the command
  values below are the numbers before that rounding. Toasts and console output are not
  part of the state.
\<close>

datatype jsnum = Finite real | NonFinite

record slicingParams =
  voxelSize :: real
  numProjections :: real
  rotX :: real
  rotY :: real
  rotZ :: real

record projectionParams =
  totalRotation :: real
  rotationSpeed :: real
  pauseAfterRotation :: real
  verticalSteps :: real
  verticalDelay :: real
  verticalDirection :: real

record alignmentParams =
  scale :: real
  translateX :: real
  translateY :: real
  contrast :: real

datatype printMode = Velocity | Hops | TimePerFrame

datatype slicingStatus = StatusIdle | StatusSlicing | StatusComplete | StatusFailed

datatype tab = Slicing | Projecting | Advanced

datatype connectionState = ConnConnecting | ConnConnected | ConnClosed | ConnTerminated

datatype windowStatus = WinDisconnected | WinConnecting | WinConnected | WinError string

text \<open>The messages of the projection channel, and what leaves the controller.\<close>

datatype message =
    UPDATE_IMAGE "string option"
  | CLEAR_IMAGE
  | TOGGLE_CALIBRATION bool
  | UPDATE_ALIGNMENT alignmentParams

datatype effect = LinkWrite "real list" | ChannelSend message

text \<open>The exceptions that the handlers below can meet.\<close>

datatype exn = SyntaxError | TypeError | InvalidStateError

type_synonym characteristic = nat

text \<open>
  A pending timer is the delay it was scheduled with together with what its callback
  closed over: the values of the render in which the callback was created.
\<close>

record simTimer =
  timerDelay :: jsnum
  timerImages :: "string list"
  timerMode :: printMode
  timerTimePerFrame :: real
  timerParams :: projectionParams
  timerCharacteristic :: "characteristic option"
  timerSimulation :: bool

record testTimer =
  intervalPeriod :: real
  intervalImages :: "string list"

record app =
  activeTab :: tab
  slicingParams :: slicingParams
  projectionParams :: projectionParams
  alignmentParams :: alignmentParams
  fileName :: "string option"
  stlFile :: "string option"
  projectionImages :: "string list"
  slicingStatus :: slicingStatus
  slicingStatsTime :: "real option"
  slicingStatsCount :: "nat option"
  isPrinting :: bool
  isWaitingForHopTrigger :: bool
  printMode :: printMode
  timePerFrame :: real
  isTestPrinting :: bool
  isCalibrating :: bool
  isSimulationMode :: bool
  isConnected :: bool
  writeCharacteristic :: "characteristic option"
  presentationConnection :: "connectionState option"
  projectionWindowStatus :: windowStatus
  currentFrame :: nat
  intervalId :: "nat option"
  timeoutId :: "simTimer option"
  testPrintInterval :: "testTimer option"
  testFrame :: nat
  traffic :: "effect list"

text \<open>
  \<open>timeoutId\<close> holds the pending \<open>setTimeout\<close> of the simulated print and
  \<open>testPrintInterval\<close> the pending \<open>setInterval\<close> of test playback; \<open>testFrame\<close> is the
  local counter \<open>currentFrame\<close> of the interval callback. \<open>intervalId\<close> is only ever
  cleared by the source, never set. \<open>traffic\<close> lists, in order, every write to
  the device characteristic and every message sent on the projection channel.
\<close>

definition initialApp :: app where
  "initialApp = \<lparr>
     activeTab = Slicing,
     slicingParams = \<lparr>voxelSize = 1, numProjections = 120, rotX = 0, rotY = 0, rotZ = 0\<rparr>,
     projectionParams = \<lparr>totalRotation = 360, rotationSpeed = 30, pauseAfterRotation = 0,
       verticalSteps = 0, verticalDelay = 1000, verticalDirection = 1\<rparr>,
     alignmentParams = \<lparr>scale = 100, translateX = 0, translateY = 0, contrast = 100\<rparr>,
     fileName = None,
     stlFile = None,
     projectionImages = [],
     slicingStatus = StatusIdle,
     slicingStatsTime = None,
     slicingStatsCount = None,
     isPrinting = False,
     isWaitingForHopTrigger = False,
     printMode = Velocity,
     timePerFrame = 100,
     isTestPrinting = False,
     isCalibrating = False,
     isSimulationMode = False,
     isConnected = False,
     writeCharacteristic = None,
     presentationConnection = None,
     projectionWindowStatus = WinDisconnected,
     currentFrame = 0,
     intervalId = None,
     timeoutId = None,
     testPrintInterval = None,
     testFrame = 0,
     traffic = []\<rparr>"

section \<open>Device command encoding\<close>

text \<open>\<open>x || 0\<close> on a number: zero stays zero, anything else is itself.\<close>

definition orZero :: "real \<Rightarrow> real" where
  "orZero x = (if x = 0 then 0 else x)"

text \<open>
  The delay, the pause and the command as exact numbers: the values of the source's
  expressions before any rounding.
\<close>

definition tomographicDelayMs :: "projectionParams \<Rightarrow> real" where
  "tomographicDelayMs p =
     (let degreesPerStep = 0.1125
      in if rotationSpeed p > 0 then (degreesPerStep / rotationSpeed p) * 1000 else 0)"

definition pauseInSeconds :: "projectionParams \<Rightarrow> real" where
  "pauseInSeconds p = orZero (pauseAfterRotation p) / 1000"

definition printCommand :: "projectionParams \<Rightarrow> real list" where
  "printCommand p =
     [totalRotation p, tomographicDelayMs p, pauseInSeconds p,
      verticalSteps p, verticalDelay p, verticalDirection p]"

definition stopCommand :: "real list" where
  "stopCommand = replicate 6 0"

text \<open>A \<open>Float32Array\<close> of n elements has a buffer of 4 n bytes.\<close>

definition byteLength :: "real list \<Rightarrow> nat" where
  "byteLength cmd = 4 * length cmd"

text \<open>
  The value that reaches the buffer. JavaScript computes the delay in double precision,
  rounding the literal and the result of each operation, and the store into the
  \<open>Float32Array\<close> rounds to single precision. \<open>roundTo p\<close> is IEEE rounding to the
  nearest number with a significand of \<open>p\<close> bits, ties to the even significand; the
  exponent range is taken as unbounded (no overflow, no subnormal numbers).
\<close>

definition roundEven :: "real \<Rightarrow> int" where
  "roundEven r =
     (let f = \<lfloor>r\<rfloor>; d = r - of_int f
      in if d < 1 / 2 then f else if d > 1 / 2 then f + 1 else if even f then f else f + 1)"

definition binade :: "real \<Rightarrow> int" where
  "binade x = \<lfloor>log 2 x\<rfloor>"

definition ulp :: "nat \<Rightarrow> real \<Rightarrow> real" where
  "ulp p x = 2 powr of_int (binade x - int p + 1)"

definition roundTo :: "nat \<Rightarrow> real \<Rightarrow> real" where
  "roundTo p x =
     (if x = 0 then 0
      else if x > 0 then ulp p x * of_int (roundEven (x / ulp p x))
      else - (ulp p (- x) * of_int (roundEven (- x / ulp p (- x)))))"

definition float64 :: "real \<Rightarrow> real" where
  "float64 x = roundTo 53 x"

definition fround :: "real \<Rightarrow> real" where
  "fround x = roundTo 24 x"

definition encodedDelayMs :: "projectionParams \<Rightarrow> real" where
  "encodedDelayMs p =
     (let degreesPerStep = float64 0.1125;
          tomographicDelayMs =
            (if rotationSpeed p > 0
             then float64 (float64 (degreesPerStep / rotationSpeed p) * 1000) else 0)
      in fround tomographicDelayMs)"

section \<open>Session handlers\<close>

text \<open>Array indexing: out of range is \<open>undefined\<close>.\<close>

definition index :: "'a list \<Rightarrow> nat \<Rightarrow> 'a option" where
  "index xs i = (if i < length xs then Some (xs ! i) else None)"

text \<open>
  \<open>PresentationConnection.send\<close> delivers a message only on a connection in state
  \<open>connected\<close>; in any other state it throws \<open>InvalidStateError\<close> and nothing is sent.
  \<open>send\<close> is the delivery. The exception is part of the model for \<open>stopPrint\<close>, which
  sends with no test of the state.
\<close>

definition send :: "message \<Rightarrow> app \<Rightarrow> app" where
  "send m s =
     (if presentationConnection s = Some ConnConnected
      then s\<lparr>traffic := traffic s @ [ChannelSend m]\<rparr> else s)"

definition writeValue :: "real list \<Rightarrow> app \<Rightarrow> app" where
  "writeValue cmd s = s\<lparr>traffic := traffic s @ [LinkWrite cmd]\<rparr>"

definition stopTestPrint :: "app \<Rightarrow> app" where
  "stopTestPrint s =
     (let s1 = (if testPrintInterval s \<noteq> None then s\<lparr>testPrintInterval := None\<rparr> else s);
          s2 = (if presentationConnection s1 = Some ConnConnected then send CLEAR_IMAGE s1 else s1)
      in s2\<lparr>isTestPrinting := False\<rparr>)"

text \<open>
  \<open>stopPrint\<close> is a \<open>useCallback\<close> over \<open>writeCharacteristic\<close> and \<open>isSimulationMode\<close>:
  a caller that kept an older instance of it (the disconnect listener, a running
  simulation) calls it with the values of the render that created it. They are the
  first two arguments. Its last statement sends \<open>CLEAR_IMAGE\<close> on the held connection
  whatever its state, so \<open>stopPrint\<close> either returns or is left by the exception of
  that send, with every assignment done in both cases: \<open>stopPrintOutcome\<close> is the
  exception, if any, and the state; \<open>stopPrint\<close> is the state and \<open>stopPrintError\<close>
  the exception.
\<close>

definition stopPrintOutcome ::
  "characteristic option \<Rightarrow> bool \<Rightarrow> app \<Rightarrow> exn option \<times> app" where
  "stopPrintOutcome wc sim s =
     (let s1 = (if intervalId s \<noteq> None then s\<lparr>intervalId := None\<rparr> else s);
          s2 = (if timeoutId s1 \<noteq> None then s1\<lparr>timeoutId := None\<rparr> else s1);
          s3 = s2\<lparr>isPrinting := False, isWaitingForHopTrigger := False\<rparr>;
          s4 = (if wc \<noteq> None \<and> \<not> sim then writeValue stopCommand s3 else s3)
      in case presentationConnection s4 of
           None \<Rightarrow> (None, s4)
         | Some st \<Rightarrow>
             if st = ConnConnected then (None, send CLEAR_IMAGE s4)
             else (Some InvalidStateError, s4))"

definition stopPrint :: "characteristic option \<Rightarrow> bool \<Rightarrow> app \<Rightarrow> app" where
  "stopPrint wc sim s = snd (stopPrintOutcome wc sim s)"

definition stopPrintError :: "characteristic option \<Rightarrow> bool \<Rightarrow> app \<Rightarrow> exn option" where
  "stopPrintError wc sim s = fst (stopPrintOutcome wc sim s)"

definition simulationDelay :: "printMode \<Rightarrow> real \<Rightarrow> projectionParams \<Rightarrow> nat \<Rightarrow> jsnum" where
  "simulationDelay mode tpf pp totalFrames =
     (case mode of
        TimePerFrame \<Rightarrow> Finite tpf
      | Velocity \<Rightarrow>
          (if totalFrames = 0 \<or> rotationSpeed pp = 0 then NonFinite
           else Finite (((totalRotation pp / real totalFrames) / rotationSpeed pp) * 1000))
      | Hops \<Rightarrow>
          (if totalFrames = 0 \<or> rotationSpeed pp = 0 then NonFinite
           else Finite (((totalRotation pp / real totalFrames) / rotationSpeed pp) * 1000)))"

text \<open>
  One run of the closure \<open>runSimulationStep\<close>. It was created by the \<open>handlePrint\<close> of
  one render and uses that render's image list, print mode, frame time, projection
  parameters and \<open>stopPrint\<close>; the frame counter lives in the shared ref. Its send is
  the optional call of the source: nothing when no connection is held. The function is
  the step whose send returns. On a held connection that is not connected the source's
  send throws and the step ends there, changing nothing; the function does not follow
  that: it records no message and goes on to the timer, which gives the transition
  system more behaviour than the source has and removes none.
\<close>

definition runSimulationStep ::
  "string list \<Rightarrow> printMode \<Rightarrow> real \<Rightarrow> projectionParams \<Rightarrow> characteristic option \<Rightarrow> bool
     \<Rightarrow> app \<Rightarrow> app" where
  "runSimulationStep images mode tpf pp wc sim s =
     (let totalFrames = length images
      in if currentFrame s \<ge> totalFrames then stopPrint wc sim s
         else
           (let imageUrl = index images (currentFrame s);
                s1 = (if presentationConnection s \<noteq> None then send (UPDATE_IMAGE imageUrl) s else s);
                s2 = s1\<lparr>currentFrame := currentFrame s1 + 1\<rparr>;
                delay = simulationDelay mode tpf pp totalFrames
            in s2\<lparr>timeoutId := Some \<lparr>timerDelay = delay, timerImages = images,
                 timerMode = mode, timerTimePerFrame = tpf, timerParams = pp,
                 timerCharacteristic = wc, timerSimulation = sim\<rparr>\<rparr>))"

text \<open>
  \<open>handlePrint\<close> up to its \<open>await\<close>. A rejected write is the later event
  \<open>printWriteRejected\<close>.
\<close>

definition handlePrint :: "app \<Rightarrow> app" where
  "handlePrint s =
     (if isPrinting s then stopPrint (writeCharacteristic s) (isSimulationMode s) s
      else if isSimulationMode s then
        (if presentationConnection s \<noteq> Some ConnConnected then s
         else runSimulationStep (projectionImages s) (printMode s) (timePerFrame s)
                (projectionParams s) (writeCharacteristic s) (isSimulationMode s)
                (s\<lparr>isPrinting := True, currentFrame := 0\<rparr>))
      else if writeCharacteristic s = None then s
      else writeValue (printCommand (projectionParams s)) (s\<lparr>isPrinting := True\<rparr>))"

definition printWriteRejected :: "app \<Rightarrow> app" where
  "printWriteRejected s = s\<lparr>isPrinting := False\<rparr>"

text \<open>The callback of the pending \<open>setTimeout\<close>: the next step of the same closure.\<close>

definition simulationTimeout :: "app \<Rightarrow> app" where
  "simulationTimeout s =
     (case timeoutId s of
        None \<Rightarrow> s
      | Some t \<Rightarrow> runSimulationStep (timerImages t) (timerMode t) (timerTimePerFrame t)
          (timerParams t) (timerCharacteristic t) (timerSimulation t) s)"

definition handleTestPrint :: "app \<Rightarrow> app" where
  "handleTestPrint s =
     (if isTestPrinting s then stopTestPrint s
      else if length (projectionImages s) = 0 then s
      else if presentationConnection s \<noteq> Some ConnConnected then s
      else
        (let s1 = (if isCalibrating s then s\<lparr>isCalibrating := False\<rparr> else s);
             s2 = s1\<lparr>isTestPrinting := True, testFrame := 0\<rparr>;
             frameDuration = (if printMode s = TimePerFrame then timePerFrame s else 33)
         in s2\<lparr>testPrintInterval := Some \<lparr>intervalPeriod = frameDuration,
              intervalImages = projectionImages s\<rparr>\<rparr>))"

text \<open>
  One firing of the interval callback over the image list it closed over. The list is
  never empty (\<open>handleTestPrint\<close> returns before creating the interval otherwise), so
  the modulus is never zero.
\<close>

definition testPrintTick :: "string list \<Rightarrow> app \<Rightarrow> app" where
  "testPrintTick images s =
     (if presentationConnection s = Some ConnConnected then
        (let imageUrl = index images (testFrame s);
             s1 = send (UPDATE_IMAGE imageUrl) s
         in s1\<lparr>testFrame := (testFrame s1 + 1) mod length images\<rparr>)
      else stopTestPrint s)"

definition testInterval :: "app \<Rightarrow> app" where
  "testInterval s =
     (case testPrintInterval s of
        None \<Rightarrow> s
      | Some t \<Rightarrow> testPrintTick (intervalImages t) s)"

definition handleCalibration :: "app \<Rightarrow> app" where
  "handleCalibration s =
     (if presentationConnection s \<noteq> Some ConnConnected then s
      else
        (let s1 = (if isTestPrinting s then stopTestPrint s else s);
             newCalibrationState = (\<not> isCalibrating s);
             s2 = s1\<lparr>isCalibrating := newCalibrationState\<rparr>
         in send (TOGGLE_CALIBRATION newCalibrationState) s2))"

definition handleESP32Notification :: "app \<Rightarrow> app" where
  "handleESP32Notification s =
     (if printMode s = Hops \<and> isPrinting s \<and> isWaitingForHopTrigger s
      then s\<lparr>isWaitingForHopTrigger := False\<rparr> else s)"

text \<open>
  The listener for \<open>gattserverdisconnected\<close> that \<open>handlePair\<close> registers. Its
  \<open>stopPrint\<close> is the one of the render in which pairing started.
\<close>

definition gattServerDisconnected :: "characteristic option \<Rightarrow> bool \<Rightarrow> app \<Rightarrow> app" where
  "gattServerDisconnected wc sim s =
     stopPrint wc sim (s\<lparr>isConnected := False, writeCharacteristic := None\<rparr>)"

definition pairSucceeded :: "characteristic \<Rightarrow> app \<Rightarrow> app" where
  "pairSucceeded c s = s\<lparr>writeCharacteristic := Some c, isConnected := True\<rparr>"

text \<open>
  \<open>setupConnection\<close> and the \<open>closeHandler\<close> it installs. \<open>same\<close> is the test
  \<open>presentationConnectionRef.current === connection\<close>: whether the ref still holds the
  connection that closed. When \<open>stopPrint\<close> is left by an exception, the statements
  after it do not run.
\<close>

definition setupConnection :: "connectionState \<Rightarrow> app \<Rightarrow> app" where
  "setupConnection st s =
     s\<lparr>presentationConnection := Some st, projectionWindowStatus := WinConnected\<rparr>"

definition closeHandler :: "bool \<Rightarrow> characteristic option \<Rightarrow> bool \<Rightarrow> app \<Rightarrow> app" where
  "closeHandler same wc sim s =
     (let s1 = s\<lparr>projectionWindowStatus := WinDisconnected\<rparr>;
          s2 = (if same then s1\<lparr>presentationConnection := None\<rparr> else s1);
          s3 = stopPrint wc sim s2
      in case stopPrintError wc sim s2 of
           Some e \<Rightarrow> s3
         | None \<Rightarrow> (stopTestPrint s3)\<lparr>isCalibrating := False\<rparr>)"

section \<open>The controller as a transition system\<close>

text \<open>
  Everything that can happen to the session: the three buttons (each with the
  \<open>disabled\<close> condition of its \<open>button\<close> element), the two timers, the notifications of
  the device and of the projection channel, and the changes of the inputs the handlers
  read. A handler runs on the state of the moment it fires; a timer callback runs with
  the values it closed over. Of the timers, the state holds the one whose identifier
  the ref holds. The handlers of the device and of the projection channel carry the
  \<open>writeCharacteristic\<close> and \<open>isSimulationMode\<close> of the \<open>stopPrint\<close> they closed over.
\<close>

datatype event =
    ClickPrint
  | ClickTestPrint
  | ClickCalibrate
  | SimulationTimeout
  | TestInterval
  | PrintWriteRejected
  | GattServerDisconnected "characteristic option" bool
  | Esp32Notification
  | PairSucceeded characteristic
  | ConnectionAvailable connectionState
  | ConnectionStateChange connectionState
  | ConnectionClosed bool "characteristic option" bool
  | SetSimulationMode bool
  | SetPrintMode printMode
  | SetTimePerFrame real
  | SetProjectionParams projectionParams
  | SetProjectionImages "string list"

definition hasSlices :: "app \<Rightarrow> bool" where
  "hasSlices s = (length (projectionImages s) > 0)"

definition isProjectionWindowConnected :: "app \<Rightarrow> bool" where
  "isProjectionWindowConnected s = (projectionWindowStatus s = WinConnected)"

fun enabled :: "event \<Rightarrow> app \<Rightarrow> bool" where
  "enabled ClickPrint s =
     (\<not> ((\<not> isConnected s \<and> \<not> isSimulationMode s) \<or> isTestPrinting s \<or> \<not> hasSlices s))"
| "enabled ClickTestPrint s =
     (\<not> (\<not> isProjectionWindowConnected s \<or> \<not> hasSlices s \<or> isPrinting s))"
| "enabled ClickCalibrate s = (\<not> (\<not> isProjectionWindowConnected s))"
| "enabled SimulationTimeout s = (timeoutId s \<noteq> None)"
| "enabled TestInterval s = (testPrintInterval s \<noteq> None)"
| "enabled (ConnectionStateChange st) s = (presentationConnection s \<noteq> None)"
| "enabled (ConnectionClosed same wc sim) s = (if same then presentationConnection s \<noteq> None else True)"
| "enabled ev s = True"

fun fire :: "event \<Rightarrow> app \<Rightarrow> app" where
  "fire ClickPrint s =
     (if isPrinting s then stopPrint (writeCharacteristic s) (isSimulationMode s) s
      else handlePrint s)"
| "fire ClickTestPrint s = handleTestPrint s"
| "fire ClickCalibrate s = handleCalibration s"
| "fire SimulationTimeout s = simulationTimeout s"
| "fire TestInterval s = testInterval s"
| "fire PrintWriteRejected s = printWriteRejected s"
| "fire (GattServerDisconnected wc sim) s = gattServerDisconnected wc sim s"
| "fire Esp32Notification s = handleESP32Notification s"
| "fire (PairSucceeded c) s = pairSucceeded c s"
| "fire (ConnectionAvailable st) s = setupConnection st s"
| "fire (ConnectionStateChange st) s = s\<lparr>presentationConnection := Some st\<rparr>"
| "fire (ConnectionClosed same wc sim) s = closeHandler same wc sim s"
| "fire (SetSimulationMode b) s = s\<lparr>isSimulationMode := b\<rparr>"
| "fire (SetPrintMode m) s = s\<lparr>printMode := m\<rparr>"
| "fire (SetTimePerFrame x) s = s\<lparr>timePerFrame := x\<rparr>"
| "fire (SetProjectionParams p) s = s\<lparr>projectionParams := p\<rparr>"
| "fire (SetProjectionImages imgs) s = s\<lparr>projectionImages := imgs\<rparr>"

inductive reachable :: "app \<Rightarrow> bool" where
  reachable_init: "reachable initialApp"
| reachable_step: "reachable s \<Longrightarrow> enabled ev s \<Longrightarrow> reachable (fire ev s)"

fun run :: "event list \<Rightarrow> app \<Rightarrow> app" where
  "run [] s = s"
| "run (ev # evs) s = run evs (fire ev s)"

fun allEnabled :: "event list \<Rightarrow> app \<Rightarrow> bool" where
  "allEnabled [] s = True"
| "allEnabled (ev # evs) s = (enabled ev s \<and> allEnabled evs (fire ev s))"

section \<open>Calibration offset\<close>

text \<open>
  The value of \<open>JSON.parse\<close>. An object is its list of members in source order; a
  repeated key takes its last value.
\<close>

datatype json =
    JNull
  | JBool bool
  | JNumber real
  | JString string
  | JArray "json list"
  | JObject "(string \<times> json) list"

text \<open>
  Property access \<open>v.k\<close>: it throws on \<open>null\<close>, reads the member of an object, and is
  \<open>undefined\<close> on every other value (for the keys \<open>x\<close> and \<open>y\<close> read here).
\<close>

definition getProperty :: "json \<Rightarrow> string \<Rightarrow> exn + json option" where
  "getProperty v k =
     (case v of
        JNull \<Rightarrow> Inl TypeError
      | JObject members \<Rightarrow> Inr (map_of (rev members) k)
      | _ \<Rightarrow> Inr None)"

definition isNumber :: "json option \<Rightarrow> bool" where
  "isNumber v = (case v of Some (JNumber _) \<Rightarrow> True | _ \<Rightarrow> False)"

definition numberOf :: "json option \<Rightarrow> real" where
  "numberOf v = (case v of Some (JNumber r) \<Rightarrow> r | _ \<Rightarrow> 0)"

text \<open>
  The body of the \<open>try\<close> block of the load effect. \<open>parse\<close> is \<open>JSON.parse\<close>, with
  \<open>None\<close> for a thrown \<open>SyntaxError\<close>; \<open>item\<close> is what \<open>localStorage.getItem\<close> returned.
\<close>

definition loadOffsetBody ::
  "(string \<Rightarrow> json option) \<Rightarrow> string option \<Rightarrow> alignmentParams \<Rightarrow> exn + alignmentParams" where
  "loadOffsetBody parse item a =
     (case item of
        None \<Rightarrow> Inr a
      | Some savedOffsetJSON \<Rightarrow>
          if savedOffsetJSON = [] then Inr a
          else
            (case parse savedOffsetJSON of
               None \<Rightarrow> Inl SyntaxError
             | Some savedOffset \<Rightarrow>
                 (case getProperty savedOffset ''x'' of
                    Inl e \<Rightarrow> Inl e
                  | Inr x \<Rightarrow>
                      if \<not> isNumber x then Inr a
                      else
                        (case getProperty savedOffset ''y'' of
                           Inl e \<Rightarrow> Inl e
                         | Inr y \<Rightarrow>
                             if isNumber y
                             then Inr (a\<lparr>translateX := numberOf x, translateY := numberOf y\<rparr>)
                             else Inr a))))"

text \<open>The whole effect: the \<open>catch\<close> clause logs and leaves the state as it was.\<close>

definition loadCalibrationOffset ::
  "(string \<Rightarrow> json option) \<Rightarrow> string option \<Rightarrow> alignmentParams \<Rightarrow> alignmentParams" where
  "loadCalibrationOffset parse item a =
     (case loadOffsetBody parse item a of Inl e \<Rightarrow> a | Inr a' \<Rightarrow> a')"

section \<open>Job archive\<close>

text \<open>
  The archive as the handlers see it through the zip library. The text of
  \<open>settings.json\<close> is modelled by what \<open>JSON.parse\<close> makes of it: \<open>JSON.stringify\<close>
  followed by \<open>JSON.parse\<close> is taken to give back a record of finite numbers
  unchanged. An image entry holds bytes; \<open>None\<close> is an entry whose content cannot be
  read. \<open>projectionsFolder\<close> is the result of \<open>zip.folder("projections")\<close>; the source
  tests it for null, and \<open>None\<close> is the branch of that test (the library returns a
  folder, empty when the archive has none).
\<close>

type_synonym byte = "8 word"

record settings =
  settingsSlicing :: slicingParams
  settingsProjection :: projectionParams
  settingsAlignment :: alignmentParams

datatype settingsJson = Malformed | Text settings

record zipEntry =
  relativePath :: string
  dir :: bool
  content :: "byte list option"

record archive =
  archiveName :: string
  settingsFile :: "settingsJson option"
  projectionsFolder :: "zipEntry list option"

text \<open>
  The base64 codec of the zip library. Export gives the library the text after the
  comma of the data URL with the option \<open>base64\<close>, and the library decodes it to bytes
  when it generates the archive; import asks for an entry's content as base64, and the
  library encodes the bytes. Decoding refuses a text that starts like a data URL,
  drops every character outside the alphabet, and refuses what is left when three
  quarters of its length is not a whole number. It writes the decoded bytes into a
  \<open>Uint8Array\<close> of that length less the padding: a zeroed array, in which a byte is
  reduced modulo 256 and a write past the end is dropped. The bits of a group that
  belong to no byte are ignored. \<open>indexOf\<close> is only applied to characters of the
  alphabet.
\<close>

definition keyStr :: string where
  "keyStr = ''ABCDEFGHIJKLMNOPQRSTUVWXYZabcdefghijklmnopqrstuvwxyz0123456789+/=''"

definition charAt :: "string \<Rightarrow> nat \<Rightarrow> string" where
  "charAt s i = (if i < length s then [s ! i] else [])"

fun indexOf :: "string \<Rightarrow> char \<Rightarrow> nat" where
  "indexOf [] c = 0"
| "indexOf (x # xs) c = (if x = c then 0 else Suc (indexOf xs c))"

definition encodeGroup :: "nat \<Rightarrow> nat \<Rightarrow> nat \<Rightarrow> nat \<Rightarrow> string" where
  "encodeGroup chr1 chr2 chr3 remainingBytes =
     (let enc1 = drop_bit 2 chr1;
          enc2 = push_bit 4 (chr1 AND 3) OR drop_bit 4 chr2;
          enc3 = (if remainingBytes > 1 then push_bit 2 (chr2 AND 15) OR drop_bit 6 chr3 else 64);
          enc4 = (if remainingBytes > 2 then chr3 AND 63 else 64)
      in charAt keyStr enc1 @ charAt keyStr enc2 @ charAt keyStr enc3 @ charAt keyStr enc4)"

fun base64Encode :: "byte list \<Rightarrow> string" where
  "base64Encode [] = []"
| "base64Encode [a] = encodeGroup (unat a) 0 0 1"
| "base64Encode [a, b] = encodeGroup (unat a) (unat b) 0 2"
| "base64Encode (a # b # c # rest) =
     encodeGroup (unat a) (unat b) (unat c) 3 @ base64Encode rest"

fun decodeGroups :: "string \<Rightarrow> byte list" where
  "decodeGroups (c1 # c2 # c3 # c4 # rest) =
     (let enc1 = indexOf keyStr c1;
          enc2 = indexOf keyStr c2;
          enc3 = indexOf keyStr c3;
          enc4 = indexOf keyStr c4;
          chr1 = push_bit 2 enc1 OR drop_bit 4 enc2;
          chr2 = push_bit 4 (enc2 AND 15) OR drop_bit 2 enc3;
          chr3 = push_bit 6 (enc3 AND 3) OR enc4
      in [of_nat chr1] @ (if enc3 \<noteq> 64 then [of_nat chr2] else [])
           @ (if enc4 \<noteq> 64 then [of_nat chr3] else []) @ decodeGroups rest)"
| "decodeGroups cs = []"

text \<open>The number of padding characters among the last two.\<close>

definition padding :: "string \<Rightarrow> nat" where
  "padding input =
     (let n = length input
      in (if n \<ge> 1 \<and> charAt input (n - 1) = charAt keyStr 64 then 1 else 0)
         + (if n \<ge> 2 \<and> charAt input (n - 2) = charAt keyStr 64 then 1 else 0))"

definition base64Decode :: "string \<Rightarrow> byte list option" where
  "base64Decode input =
     (if take 5 input = ''data:'' then None
      else
        (let stripped = filter (\<lambda>c. c \<in> set keyStr) input;
             pad = padding stripped
         in if (length stripped * 3) mod 4 \<noteq> 0 then None
            else
              (let totalLength = length stripped * 3 div 4 - pad;
                   written = decodeGroups stripped
               in Some (take totalLength
                    (written @ replicate (totalLength - length written) 0)))))"

fun splitOn :: "char \<Rightarrow> string \<Rightarrow> string list" where
  "splitOn c [] = [[]]"
| "splitOn c (x # xs) =
     (if x = c then [] # splitOn c xs
      else (case splitOn c xs of [] \<Rightarrow> [[x]] | seg # segs \<Rightarrow> (x # seg) # segs))"

definition digitChar :: "nat \<Rightarrow> char" where
  "digitChar d = char_of (48 + d)"

text \<open>\<open>String(i)\<close> for a nonnegative integer: its decimal digits.\<close>

function decimal :: "nat \<Rightarrow> string" where
  "decimal n = (if n < 10 then [digitChar n] else decimal (n div 10) @ [digitChar (n mod 10)])"
  by pat_completeness auto
termination
  by (relation "measure (\<lambda>n. n)") auto

declare decimal.simps [simp del]

definition padStart :: "nat \<Rightarrow> char \<Rightarrow> string \<Rightarrow> string" where
  "padStart n c s = replicate (n - length s) c @ s"

definition toLowerCase :: "string \<Rightarrow> string" where
  "toLowerCase s =
     map (\<lambda>c. if CHR ''A'' \<le> c \<and> c \<le> CHR ''Z'' then char_of (of_char c + (32::nat)) else c) s"

definition endsWith :: "string \<Rightarrow> string \<Rightarrow> bool" where
  "endsWith s suffix =
     (length suffix \<le> length s \<and> drop (length s - length suffix) s = suffix)"

text \<open>\<open>s.replace(/\\.ext$/i, r)\<close> for a four-character extension.\<close>

definition replaceExtension :: "string \<Rightarrow> string \<Rightarrow> string \<Rightarrow> string" where
  "replaceExtension ext r s =
     (if endsWith (toLowerCase s) ext then take (length s - length ext) s @ r else s)"

definition sliceName :: "nat \<Rightarrow> string" where
  "sliceName i = ''slice_'' @ padStart 4 CHR ''0'' (decimal i) @ ''.png''"

definition dataUrlPrefix :: string where
  "dataUrlPrefix = ''data:image/png;base64,''"


datatype exportError = NothingToExport | ExportFailed

text \<open>
  \<open>handleExportJob\<close>: \<open>exportArchive\<close> is the zip object its \<open>try\<close> block builds. An
  image without a comma has no second segment; the library stores absent or empty data
  as an empty entry and decodes any other data as base64. When the data of an entry
  does not decode, generating the archive fails, the \<open>catch\<close> clause reports it and no
  archive is saved.
\<close>

definition exportEntry :: "string list \<Rightarrow> nat \<Rightarrow> zipEntry" where
  "exportEntry images i =
     (let base64Data = index (splitOn CHR '','' (images ! i)) 1
      in \<lparr>relativePath = sliceName i, dir = False,
          content =
            (case base64Data of
               None \<Rightarrow> Some []
             | Some d \<Rightarrow> if d = [] then Some [] else base64Decode d)\<rparr>)"

definition exportArchive :: "app \<Rightarrow> archive" where
  "exportArchive s =
     \<lparr>archiveName =
        replaceExtension ''.stl'' []
          (case fileName s of None \<Rightarrow> ''model'' | Some n \<Rightarrow> if n = [] then ''model'' else n)
        @ ''.zip'',
      settingsFile = Some (Text \<lparr>settingsSlicing = slicingParams s,
        settingsProjection = projectionParams s, settingsAlignment = alignmentParams s\<rparr>),
      projectionsFolder =
        Some (map (exportEntry (projectionImages s)) [0..<length (projectionImages s)])\<rparr>"

definition handleExportJob :: "app \<Rightarrow> exportError + archive" where
  "handleExportJob s =
     (if slicingStatus s \<noteq> StatusComplete \<or> length (projectionImages s) = 0
      then Inl NothingToExport
      else if None \<in> set (map (\<lambda>i. content (exportEntry (projectionImages s) i))
                       [0..<length (projectionImages s)])
      then Inl ExportFailed
      else Inr (exportArchive s))"

datatype importError =
    SettingsNotFound
  | SettingsSyntaxError
  | ProjectionsFolderNotFound
  | EntryUnreadable

text \<open>
  Reading the selected entries as base64: \<open>Promise.all\<close> rejects as soon as one read
  does.
\<close>

fun loadImages :: "zipEntry list \<Rightarrow> (string \<times> string) list option" where
  "loadImages [] = Some []"
| "loadImages (e # es) =
     (case content e of
        None \<Rightarrow> None
      | Some bytes \<Rightarrow>
          (case loadImages es of
             None \<Rightarrow> None
           | Some rest \<Rightarrow>
               Some ((relativePath e, dataUrlPrefix @ base64Encode bytes) # rest)))"

text \<open>
  \<open>handleImportJob\<close>: the error caught by its \<open>catch\<close> clause, if any, and the state
  when it is done. \<open>loadedImages.sort\<close> is stable; \<open>localeCompare\<close> is modelled as the
  lexicographic comparison of the names by character code, with which it agrees on
  names that differ only in decimal digits.
\<close>

definition handleImportJob :: "archive \<Rightarrow> app \<Rightarrow> importError option \<times> app" where
  "handleImportJob z s =
     (case settingsFile z of
        None \<Rightarrow> (Some SettingsNotFound, s)
      | Some Malformed \<Rightarrow> (Some SettingsSyntaxError, s)
      | Some (Text st) \<Rightarrow>
          (let s1 = s\<lparr>slicingParams := settingsSlicing st,
                      projectionParams := settingsProjection st,
                      alignmentParams := settingsAlignment st\<rparr>
           in case projectionsFolder z of
                None \<Rightarrow> (Some ProjectionsFolderNotFound, s1)
              | Some entries \<Rightarrow>
                  (case loadImages
                      (filter (\<lambda>e. \<not> dir e \<and> endsWith (toLowerCase (relativePath e)) ''.png'')
                         entries) of
                     None \<Rightarrow> (Some EntryUnreadable, s1)
                   | Some loadedImages \<Rightarrow>
                       (let sortedImages = sort_key fst loadedImages
                        in (None, s1\<lparr>projectionImages := map snd sortedImages,
                              fileName := Some (replaceExtension ''.zip'' ''.stl'' (archiveName z)),
                              stlFile := None,
                              slicingStatus := StatusComplete,
                              slicingStatsCount := Some (length sortedImages),
                              slicingStatsTime := Some 0,
                              activeTab := Projecting\<rparr>)))))"

section \<open>Invariants and example states\<close>

text \<open>
  Every image lookup of a pending loop is in range, and no \<open>UPDATE_IMAGE\<close> was ever
  sent with an undefined image.
\<close>

definition framesInBounds :: "app \<Rightarrow> bool" where
  "framesInBounds s =
     ((case testPrintInterval s of None \<Rightarrow> True
        | Some t \<Rightarrow> testFrame s < length (intervalImages t))
      \<and> (case timeoutId s of None \<Rightarrow> True
        | Some t \<Rightarrow> currentFrame s \<le> length (timerImages t))
      \<and> ChannelSend (UPDATE_IMAGE None) \<notin> set (traffic s))"

text \<open>A paired device and nothing running.\<close>

definition pairedIdleApp :: app where
  "pairedIdleApp = pairSucceeded 1 initialApp"

text \<open>A projection connection that has arrived and is still connecting, nothing running.\<close>

definition connectingIdleApp :: app where
  "connectingIdleApp = setupConnection ConnConnecting initialApp"

text \<open>A real print in progress.\<close>

definition realPrintingApp :: app where
  "realPrintingApp = handlePrint (pairSucceeded 1 initialApp)"

text \<open>
  Simulation mode on, second monitor connected, one image loaded, Print clicked, then
  Calibrate clicked; and the same with Calibrate clicked first.
\<close>

definition printingAndCalibrating :: app where
  "printingAndCalibrating =
     run [SetSimulationMode True, ConnectionAvailable ConnConnected,
          SetProjectionImages [''data:image/png;base64,AA==''], ClickPrint, ClickCalibrate]
       initialApp"

text \<open>Second monitor connected, two images loaded, test playback started, three ticks.\<close>

definition calibratingAndPrinting :: app where
  "calibratingAndPrinting =
     run [SetSimulationMode True, ConnectionAvailable ConnConnected,
          SetProjectionImages [''data:image/png;base64,AA==''], ClickCalibrate, ClickPrint]
       initialApp"

definition testPlayingEvents :: "event list" where
  "testPlayingEvents =
     [ConnectionAvailable ConnConnected,
      SetProjectionImages [''data:image/png;base64,AA=='', ''data:image/png;base64,AQ==''],
      ClickTestPrint, TestInterval, TestInterval, TestInterval]"

definition testPlayingApp :: app where
  "testPlayingApp = run testPlayingEvents initialApp"

text \<open>A \<open>JSON.parse\<close> that knows one text.\<close>

definition exampleParse :: "string \<Rightarrow> json option" where
  "exampleParse txt =
     (if txt = ''offset'' then Some (JObject [(''x'', JNumber 3), (''y'', JNumber (- 4))])
      else None)"

text \<open>The data URLs of the one-byte images 0 and 1.\<close>

definition imageA :: string where
  "imageA = ''data:image/png;base64,AA==''"


text \<open>
  Two images that are no encoding of bytes: the first has bits set that belong to no
  byte, the second has a length that is no multiple of four.
\<close>

definition looseImage :: string where
  "looseImage = ''data:image/png;base64,AB==''"

definition brokenImage :: string where
  "brokenImage = ''data:image/png;base64,AAA''"

definition looseImageApp :: app where
  "looseImageApp =
     initialApp\<lparr>projectionImages := [looseImage], slicingStatus := StatusComplete\<rparr>"

definition brokenImageApp :: app where
  "brokenImageApp =
     initialApp\<lparr>projectionImages := [brokenImage], slicingStatus := StatusComplete\<rparr>"



text \<open>
  Archives: one without \<open>settings.json\<close>, one with settings and no image entry, and
  one whose only image entry cannot be read.
\<close>

definition otherSettings :: settings where
  "otherSettings =
     \<lparr>settingsSlicing = \<lparr>voxelSize = 0.5, numProjections = 60, rotX = 90, rotY = 0, rotZ = 0\<rparr>,
      settingsProjection = \<lparr>totalRotation = 180, rotationSpeed = 10, pauseAfterRotation = 500,
        verticalSteps = 0, verticalDelay = 1000, verticalDirection = 0\<rparr>,
      settingsAlignment = \<lparr>scale = 150, translateX = 5, translateY = 7, contrast = 120\<rparr>\<rparr>"

definition noSettingsArchive :: archive where
  "noSettingsArchive =
     \<lparr>archiveName = ''job.zip'', settingsFile = None, projectionsFolder = Some []\<rparr>"

definition noImagesArchive :: archive where
  "noImagesArchive =
     \<lparr>archiveName = ''job.zip'', settingsFile = Some (Text otherSettings),
      projectionsFolder = Some []\<rparr>"

definition unreadableArchive :: archive where
  "unreadableArchive =
     \<lparr>archiveName = ''job.zip'', settingsFile = Some (Text otherSettings),
      projectionsFolder =
        Some [\<lparr>relativePath = ''slice_0000.png'', dir = False, content = None\<rparr>]\<rparr>"

section \<open>Normal forms of the stop handlers\<close>

lemma stopPrint_eq:
  "stopPrint wc sim s =
     s\<lparr>intervalId := None, timeoutId := None, isPrinting := False, isWaitingForHopTrigger := False,
       traffic := traffic s
         @ (if wc \<noteq> None \<and> \<not> sim then [LinkWrite stopCommand] else [])
         @ (if presentationConnection s = Some ConnConnected then [ChannelSend CLEAR_IMAGE]
            else [])\<rparr>"
  by (cases s)
    (simp add: stopPrint_def stopPrintOutcome_def Let_def writeValue_def send_def
      split: option.splits)

lemma stopPrintError_eq:
  "stopPrintError wc sim s =
     (case presentationConnection s of
        None \<Rightarrow> None
      | Some st \<Rightarrow> if st = ConnConnected then None else Some InvalidStateError)"
  by (simp add: stopPrintError_def stopPrintOutcome_def Let_def writeValue_def
      split: option.splits)

lemma stopTestPrint_eq:
  "stopTestPrint s =
     s\<lparr>testPrintInterval := None, isTestPrinting := False,
       traffic := traffic s
         @ (if presentationConnection s = Some ConnConnected then [ChannelSend CLEAR_IMAGE] else [])\<rparr>"
  by (cases s) (simp add: stopTestPrint_def Let_def send_def)

lemma reachable_run: "reachable s \<Longrightarrow> allEnabled evs s \<Longrightarrow> reachable (run evs s)"
  by (induction evs arbitrary: s) (auto intro: reachable_step)

section \<open>Device command\<close>

text \<open>
  Claim C4. The command that a real print writes to the characteristic is the six
  values total rotation, tomographic delay in ms, pause in seconds, vertical steps,
  vertical delay, vertical direction, in this order, that is 24 bytes; the delay is
  (0.1125 / rotationSpeed) * 1000 for a positive speed and 0 otherwise, the pause is
  pauseAfterRotation / 1000. The stop command is six zeros, and it is what
  \<open>stopPrint\<close> writes.
\<close>

theorem print_command_layout:
  "printCommand p =
     [totalRotation p,
      (if rotationSpeed p > 0 then (0.1125 / rotationSpeed p) * 1000 else 0),
      pauseAfterRotation p / 1000,
      verticalSteps p, verticalDelay p, verticalDirection p]
   \<and> length (printCommand p) = 6 \<and> byteLength (printCommand p) = 24
   \<and> stopCommand = [0, 0, 0, 0, 0, 0] \<and> byteLength stopCommand = 24
   \<and> (\<not> isPrinting s \<and> \<not> isSimulationMode s \<and> writeCharacteristic s \<noteq> None \<longrightarrow>
        traffic (handlePrint s) = traffic s @ [LinkWrite (printCommand (projectionParams s))])
   \<and> (wc \<noteq> None \<and> \<not> sim \<and> presentationConnection s = None \<longrightarrow>
        traffic (stopPrint wc sim s) = traffic s @ [LinkWrite [0, 0, 0, 0, 0, 0]])"
  by (simp add: printCommand_def tomographicDelayMs_def pauseInSeconds_def orZero_def
      byteLength_def stopCommand_def handlePrint_def writeValue_def stopPrint_eq
      eval_nat_numeral)

theorem print_command_layout_witness:
  "\<not> isPrinting pairedIdleApp \<and> \<not> isSimulationMode pairedIdleApp
   \<and> writeCharacteristic pairedIdleApp \<noteq> None
   \<and> presentationConnection pairedIdleApp = None
   \<and> traffic (handlePrint pairedIdleApp) = [LinkWrite [360, 3.75, 0, 0, 1000, 1]]
   \<and> traffic (stopPrint (Some 1) False pairedIdleApp) = [LinkWrite [0, 0, 0, 0, 0, 0]]"
  using print_command_layout [of "projectionParams pairedIdleApp" pairedIdleApp "Some 1" False]
  by (simp add: pairedIdleApp_def pairSucceeded_def initialApp_def)

section \<open>Rounding\<close>

lemma roundEven_of_int: "roundEven (of_int k) = k"
  by (simp add: roundEven_def)

lemma roundEven_bounds: "\<lfloor>r\<rfloor> \<le> roundEven r \<and> roundEven r \<le> \<lfloor>r\<rfloor> + 1"
  by (simp add: roundEven_def Let_def)

lemma roundEven_mono: "x \<le> y \<Longrightarrow> roundEven x \<le> roundEven y"
proof -
  assume a: "x \<le> y"
  then have f: "\<lfloor>x\<rfloor> \<le> \<lfloor>y\<rfloor>" by (rule floor_mono)
  show ?thesis
  proof (cases "\<lfloor>x\<rfloor> = \<lfloor>y\<rfloor>")
    case True
    then have "x - of_int \<lfloor>x\<rfloor> \<le> y - of_int \<lfloor>y\<rfloor>" using a by simp
    with True show ?thesis by (auto simp: roundEven_def Let_def)
  next
    case False
    with f have "\<lfloor>x\<rfloor> + 1 \<le> \<lfloor>y\<rfloor>" by simp
    with roundEven_bounds[of x] roundEven_bounds[of y] show ?thesis by linarith
  qed
qed

lemma binade_bounds:
  assumes "0 < x"
  shows "2 powr of_int (binade x) \<le> x" and "x < 2 powr of_int (binade x + 1)"
  using assms floor_log_eq_powr_iff[of x 2 "binade x"] by (simp_all add: binade_def)

lemma binade_eq: "0 < x \<Longrightarrow> 2 powr of_int k \<le> x \<Longrightarrow> x < 2 powr of_int (k + 1) \<Longrightarrow> binade x = k"
  using floor_log_eq_powr_iff[of x 2 k] by (simp add: binade_def)

lemma binade_mono: "0 < x \<Longrightarrow> x \<le> y \<Longrightarrow> binade x \<le> binade y"
  unfolding binade_def by (intro floor_mono) simp

lemma roundTo_range:
  assumes "0 < x" and "0 < p"
  shows "2 powr of_int (binade x) \<le> roundTo p x" and "roundTo p x \<le> 2 powr of_int (binade x + 1)"
proof -
  define u where "u = ulp p x"
  have u: "0 < u" by (simp add: u_def ulp_def)
  have lo: "2 powr of_int (binade x) = u * of_int (2 ^ (p - 1))"
  proof -
    have "u * of_int (2 ^ (p - 1)) = 2 powr of_int (binade x - int p + 1) * 2 powr of_int (int p - 1)"
      using assms(2) by (simp add: u_def ulp_def powr_realpow[symmetric] of_nat_diff)
    also have "\<dots> = 2 powr of_int (binade x)"
      by (simp add: powr_add[symmetric])
    finally show ?thesis by simp
  qed
  have hi: "2 powr of_int (binade x + 1) = u * of_int (2 ^ p)"
  proof -
    have "u * of_int (2 ^ p) = 2 powr of_int (binade x - int p + 1) * 2 powr of_int (int p)"
      by (simp add: u_def ulp_def powr_realpow[symmetric])
    also have "\<dots> = 2 powr of_int (binade x + 1)"
      by (simp add: powr_add[symmetric])
    finally show ?thesis by simp
  qed
  have "of_int (2 ^ (p - 1)) \<le> x / u"
    using binade_bounds(1)[OF assms(1)] u unfolding lo by (simp add: field_simps)
  then have "roundEven (of_int (2 ^ (p - 1))) \<le> roundEven (x / u)" by (rule roundEven_mono)
  then have a: "(2 ^ (p - 1) :: int) \<le> roundEven (x / u)" by (simp only: roundEven_of_int)
  have "x / u \<le> of_int (2 ^ p)"
    using binade_bounds(2)[OF assms(1)] u unfolding hi by (simp add: field_simps)
  then have "roundEven (x / u) \<le> roundEven (of_int (2 ^ p))" by (rule roundEven_mono)
  then have b: "roundEven (x / u) \<le> (2 ^ p :: int)" by (simp only: roundEven_of_int)
  have r: "roundTo p x = u * of_int (roundEven (x / u))"
    using assms(1) by (simp add: roundTo_def u_def)
  from a have "u * of_int (2 ^ (p - 1)) \<le> u * of_int (roundEven (x / u))"
    using u by (simp only: mult_le_cancel_left_pos of_int_le_iff)
  then show "2 powr of_int (binade x) \<le> roundTo p x" by (simp only: lo r)
  from b have "u * of_int (roundEven (x / u)) \<le> u * of_int (2 ^ p)"
    using u by (simp only: mult_le_cancel_left_pos of_int_le_iff)
  then show "roundTo p x \<le> 2 powr of_int (binade x + 1)" by (simp only: hi r)
qed

lemma roundTo_pos: "0 < x \<Longrightarrow> 0 < p \<Longrightarrow> 0 < roundTo p x"
proof -
  assume "0 < x" and "0 < p"
  then have "2 powr of_int (binade x) \<le> roundTo p x" by (rule roundTo_range(1))
  moreover have "(0::real) < 2 powr of_int (binade x)" by simp
  ultimately show ?thesis by (rule less_le_trans[rotated])
qed

lemma roundTo_mono:
  assumes "0 < x" and "x \<le> y" and "0 < p"
  shows "roundTo p x \<le> roundTo p y"
proof (cases "binade x = binade y")
  case True
  have y: "0 < y" using assms by simp
  have u: "ulp p x = ulp p y" "0 < ulp p y" by (simp_all add: ulp_def True)
  have "x / ulp p y \<le> y / ulp p y" using assms(2) u(2) by (simp add: divide_right_mono)
  then have "roundEven (x / ulp p y) \<le> roundEven (y / ulp p y)" by (rule roundEven_mono)
  then have "ulp p y * of_int (roundEven (x / ulp p y)) \<le> ulp p y * of_int (roundEven (y / ulp p y))"
    using u(2) by (simp only: mult_le_cancel_left_pos of_int_le_iff)
  then show ?thesis using assms(1) y by (simp add: roundTo_def u(1))
next
  case False
  have y: "0 < y" using assms by simp
  from False binade_mono[OF assms(1,2)] have "binade x + 1 \<le> binade y" by simp
  then have "(2::real) powr of_int (binade x + 1) \<le> 2 powr of_int (binade y)"
    by simp
  with roundTo_range(2)[OF assms(1,3)] roundTo_range(1)[OF y assms(3)]
  show ?thesis by linarith
qed

lemma roundTo_eval:
  assumes "0 < x" and "2 powr of_int k \<le> x" and "x < 2 powr of_int (k + 1)"
  shows "roundTo p x = 2 powr of_int (k - int p + 1) * of_int (roundEven (x / 2 powr of_int (k - int p + 1)))"
  using assms by (simp add: roundTo_def ulp_def binade_eq)

lemma degreesPerStep_double: "roundTo 53 0.1125 = 8106479329266893 / 2 ^ 56"
  by (subst roundTo_eval[where k = "-4"]) (simp_all add: roundEven_def Let_def powr_neg_numeral)

lemma encodedDelayMs_eq:
  "0 < rotationSpeed p \<Longrightarrow>
     encodedDelayMs p
       = roundTo 24 (roundTo 53 (roundTo 53 (roundTo 53 0.1125 / rotationSpeed p) * 1000))"
  by (simp add: encodedDelayMs_def float64_def fround_def Let_def)

lemma encodedDelayMs_30: "encodedDelayMs (p\<lparr>rotationSpeed := 30\<rparr>) = 3.75"
proof -
  have q: "roundTo 53 (8106479329266893 / 2 ^ 56 / 30) = 8646911284551353 / 2 ^ 61"
    by (subst roundTo_eval[where k = "-9"]) (simp_all add: roundEven_def Let_def powr_neg_numeral)
  have d: "roundTo 53 (8646911284551353 / 2 ^ 61 * 1000) = 8444249301319681 / 2 ^ 51"
    by (subst roundTo_eval[where k = "1"]) (simp_all add: roundEven_def Let_def powr_neg_numeral)
  have r: "roundTo 24 (8444249301319681 / 2 ^ 51) = 3.75"
    by (subst roundTo_eval[where k = "1"]) (simp_all add: roundEven_def Let_def powr_neg_numeral)
  have "encodedDelayMs (p\<lparr>rotationSpeed := 30\<rparr>)
      = roundTo 24 (roundTo 53 (roundTo 53 (roundTo 53 0.1125 / 30) * 1000))"
    by (simp add: encodedDelayMs_eq)
  then show ?thesis unfolding degreesPerStep_double q d r .
qed

lemma encodedDelayMs_60: "encodedDelayMs (p\<lparr>rotationSpeed := 60\<rparr>) = 1.875"
proof -
  have q: "roundTo 53 (8106479329266893 / 2 ^ 56 / 60) = 8646911284551353 / 2 ^ 62"
    by (subst roundTo_eval[where k = "-10"]) (simp_all add: roundEven_def Let_def powr_neg_numeral)
  have d: "roundTo 53 (8646911284551353 / 2 ^ 62 * 1000) = 8444249301319681 / 2 ^ 52"
    by (subst roundTo_eval[where k = "0"]) (simp_all add: roundEven_def Let_def powr_neg_numeral)
  have r: "roundTo 24 (8444249301319681 / 2 ^ 52) = 1.875"
    by (subst roundTo_eval[where k = "0"]) (simp_all add: roundEven_def Let_def powr_neg_numeral)
  have "encodedDelayMs (p\<lparr>rotationSpeed := 60\<rparr>)
      = roundTo 24 (roundTo 53 (roundTo 53 (roundTo 53 0.1125 / 60) * 1000))"
    by (simp add: encodedDelayMs_eq)
  then show ?thesis unfolding degreesPerStep_double q d r .
qed

lemma encodedDelayMs_above_30:
  "encodedDelayMs (p\<lparr>rotationSpeed := 30 + 1 / 2 ^ 40\<rparr>) = 3.75"
proof -
  have q: "roundTo 53 (8106479329266893 / 2 ^ 56 / (30 + 1 / 2 ^ 40))
      = 8646911284551090 / 2 ^ 61"
    by (subst roundTo_eval[where k = "-9"]) (simp_all add: roundEven_def Let_def powr_neg_numeral)
  have d: "roundTo 53 (8646911284551090 / 2 ^ 61 * 1000) = 8444249301319424 / 2 ^ 51"
    by (subst roundTo_eval[where k = "1"]) (simp_all add: roundEven_def Let_def powr_neg_numeral)
  have r: "roundTo 24 (8444249301319424 / 2 ^ 51) = 3.75"
    by (subst roundTo_eval[where k = "1"]) (simp_all add: roundEven_def Let_def powr_neg_numeral)
  have "encodedDelayMs (p\<lparr>rotationSpeed := 30 + 1 / 2 ^ 40\<rparr>)
      = roundTo 24 (roundTo 53 (roundTo 53 (roundTo 53 0.1125 / (30 + 1 / 2 ^ 40)) * 1000))"
    by (simp add: encodedDelayMs_eq)
  then show ?thesis unfolding degreesPerStep_double q d r .
qed

lemma speeds_are_doubles: "float64 30 = 30" "float64 (30 + 1 / 2 ^ 40) = 30 + 1 / 2 ^ 40"
proof -
  show "float64 30 = 30"
    unfolding float64_def
    by (subst roundTo_eval[where k = "4"]) (simp_all add: roundEven_def Let_def powr_neg_numeral)
  show "float64 (30 + 1 / 2 ^ 40) = 30 + 1 / 2 ^ 40"
    unfolding float64_def
    by (subst roundTo_eval[where k = "4"]) (simp_all add: roundEven_def Let_def powr_neg_numeral)
qed

lemma encodedDelayMs_mono:
  assumes "0 < s1" and "s1 \<le> s2"
  shows "encodedDelayMs (p\<lparr>rotationSpeed := s2\<rparr>) \<le> encodedDelayMs (p\<lparr>rotationSpeed := s1\<rparr>)"
proof -
  have c: "0 < roundTo 53 0.1125" by (simp add: roundTo_pos)
  have "0 < roundTo 53 0.1125 / s2" using assms c by simp
  moreover have "roundTo 53 0.1125 / s2 \<le> roundTo 53 0.1125 / s1"
    using assms c by (simp add: frac_le)
  ultimately have q: "roundTo 53 (roundTo 53 0.1125 / s2) \<le> roundTo 53 (roundTo 53 0.1125 / s1)"
    and qp: "0 < roundTo 53 (roundTo 53 0.1125 / s2)"
    by (simp_all add: roundTo_mono roundTo_pos)
  from q qp have "roundTo 53 (roundTo 53 (roundTo 53 0.1125 / s2) * 1000)
      \<le> roundTo 53 (roundTo 53 (roundTo 53 0.1125 / s1) * 1000)"
    and "0 < roundTo 53 (roundTo 53 (roundTo 53 0.1125 / s2) * 1000)"
    by (simp_all add: roundTo_mono roundTo_pos)
  then have "roundTo 24 (roundTo 53 (roundTo 53 (roundTo 53 0.1125 / s2) * 1000))
      \<le> roundTo 24 (roundTo 53 (roundTo 53 (roundTo 53 0.1125 / s1) * 1000))"
    by (simp add: roundTo_mono)
  then show ?thesis using assms by (simp add: encodedDelayMs_eq)
qed

section \<open>Tomographic delay\<close>

text \<open>
  Claim C7, amended. For a positive rotation speed the delay is, as an exact number,
  (0.1125 / rotationSpeed) * 1000, and of two positive speeds the greater one has the
  strictly smaller exact delay. The value stored in the command is that expression
  computed in double precision and rounded to single precision; of two positive speeds
  the greater one has a stored delay that is smaller or equal, not always smaller.
\<close>

theorem tomographic_delay_decreasing:
  "0 < s1 \<Longrightarrow> s1 < s2 \<Longrightarrow>
     tomographicDelayMs (p\<lparr>rotationSpeed := s1\<rparr>) = (0.1125 / s1) * 1000
     \<and> tomographicDelayMs (p\<lparr>rotationSpeed := s2\<rparr>) < tomographicDelayMs (p\<lparr>rotationSpeed := s1\<rparr>)
     \<and> encodedDelayMs (p\<lparr>rotationSpeed := s1\<rparr>)
         = fround (float64 (float64 (float64 0.1125 / s1) * 1000))
     \<and> encodedDelayMs (p\<lparr>rotationSpeed := s2\<rparr>) \<le> encodedDelayMs (p\<lparr>rotationSpeed := s1\<rparr>)"
proof -
  assume a: "0 < s1" "s1 < s2"
  have "tomographicDelayMs (p\<lparr>rotationSpeed := s1\<rparr>) = (0.1125 / s1) * 1000"
    using a by (simp add: tomographicDelayMs_def)
  moreover have "tomographicDelayMs (p\<lparr>rotationSpeed := s2\<rparr>)
      < tomographicDelayMs (p\<lparr>rotationSpeed := s1\<rparr>)"
    using a by (simp add: tomographicDelayMs_def field_simps)
  moreover have "encodedDelayMs (p\<lparr>rotationSpeed := s1\<rparr>)
      = fround (float64 (float64 (float64 0.1125 / s1) * 1000))"
    using a by (simp add: encodedDelayMs_def Let_def)
  moreover have "encodedDelayMs (p\<lparr>rotationSpeed := s2\<rparr>)
      \<le> encodedDelayMs (p\<lparr>rotationSpeed := s1\<rparr>)"
    using a by (intro encodedDelayMs_mono) simp_all
  ultimately show ?thesis by blast
qed

theorem tomographic_delay_decreasing_witness:
  "(0::real) < 30 \<and> (30::real) < 60
   \<and> tomographicDelayMs ((projectionParams initialApp)\<lparr>rotationSpeed := 30\<rparr>) = 3.75
   \<and> tomographicDelayMs ((projectionParams initialApp)\<lparr>rotationSpeed := 60\<rparr>) = 1.875
   \<and> tomographicDelayMs ((projectionParams initialApp)\<lparr>rotationSpeed := 60\<rparr>)
       < tomographicDelayMs ((projectionParams initialApp)\<lparr>rotationSpeed := 30\<rparr>)
   \<and> encodedDelayMs ((projectionParams initialApp)\<lparr>rotationSpeed := 30\<rparr>) = 3.75
   \<and> encodedDelayMs ((projectionParams initialApp)\<lparr>rotationSpeed := 60\<rparr>) = 1.875
   \<and> encodedDelayMs ((projectionParams initialApp)\<lparr>rotationSpeed := 60\<rparr>)
       \<le> encodedDelayMs ((projectionParams initialApp)\<lparr>rotationSpeed := 30\<rparr>)"
proof -
  have h: "(0::real) < 30" "(30::real) < 60" by simp_all
  have e: "tomographicDelayMs ((projectionParams initialApp)\<lparr>rotationSpeed := 30\<rparr>) = 3.75"
    "tomographicDelayMs ((projectionParams initialApp)\<lparr>rotationSpeed := 60\<rparr>) = 1.875"
    by (simp_all add: tomographicDelayMs_def)
  note v = encodedDelayMs_30[of "projectionParams initialApp"]
    encodedDelayMs_60[of "projectionParams initialApp"]
  from tomographic_delay_decreasing[OF h, of "projectionParams initialApp"] h e v
  show ?thesis by blast
qed

text \<open>
  The claim as stated fails for the stored delay: 30 and 30 + 1 / 2 ^ 40 are both
  double-precision numbers, the second is greater, and both are stored as 3.75.
\<close>

theorem encoded_delay_not_strict_counterexample:
  "(0::real) < 30 \<and> (30::real) < 30 + 1 / 2 ^ 40
   \<and> float64 30 = 30 \<and> float64 (30 + 1 / 2 ^ 40) = 30 + 1 / 2 ^ 40
   \<and> encodedDelayMs ((projectionParams initialApp)\<lparr>rotationSpeed := 30\<rparr>) = 3.75
   \<and> encodedDelayMs ((projectionParams initialApp)\<lparr>rotationSpeed := 30 + 1 / 2 ^ 40\<rparr>) = 3.75"
  using speeds_are_doubles
    encodedDelayMs_30[of "projectionParams initialApp"]
    encodedDelayMs_above_30[of "projectionParams initialApp"]
  by simp

section \<open>Stopping\<close>

text \<open>
  Claim C3, amended. \<open>stopPrint\<close> is idempotent on the controller state: after a
  second call every field but the traffic is what it was after the first. The second
  call sends what every call sends: one zero command when a characteristic is held and
  simulation mode is off, one \<open>CLEAR_IMAGE\<close> when the held presentation connection is
  connected. With neither, the second call sends nothing and two calls equal one.
  Neither call raises an error when no presentation connection is held or the held one
  is connected.
\<close>

theorem stopPrint_twice:
  "stopPrint wc sim (stopPrint wc sim s) =
     (stopPrint wc sim s)\<lparr>traffic := traffic (stopPrint wc sim s)
        @ (if wc \<noteq> None \<and> \<not> sim then [LinkWrite stopCommand] else [])
        @ (if presentationConnection s = Some ConnConnected then [ChannelSend CLEAR_IMAGE]
           else [])\<rparr>
   \<and> ((wc = None \<or> sim) \<and> presentationConnection s \<noteq> Some ConnConnected \<longrightarrow>
        stopPrint wc sim (stopPrint wc sim s) = stopPrint wc sim s)
   \<and> (presentationConnection s = None \<or> presentationConnection s = Some ConnConnected \<longrightarrow>
        stopPrintError wc sim s = None \<and> stopPrintError wc sim (stopPrint wc sim s) = None)"
proof -
  have "stopPrint wc sim (stopPrint wc sim s) =
     (stopPrint wc sim s)\<lparr>traffic := traffic (stopPrint wc sim s)
        @ (if wc \<noteq> None \<and> \<not> sim then [LinkWrite stopCommand] else [])
        @ (if presentationConnection s = Some ConnConnected then [ChannelSend CLEAR_IMAGE]
           else [])\<rparr>"
    by (simp add: stopPrint_eq)
  moreover have "(wc = None \<or> sim) \<and> presentationConnection s \<noteq> Some ConnConnected \<longrightarrow>
      stopPrint wc sim (stopPrint wc sim s) = stopPrint wc sim s"
    by (simp add: stopPrint_eq)
  moreover have "presentationConnection s = None \<or> presentationConnection s = Some ConnConnected
      \<longrightarrow> stopPrintError wc sim s = None \<and> stopPrintError wc sim (stopPrint wc sim s) = None"
    by (auto simp: stopPrintError_eq stopPrint_eq)
  ultimately show ?thesis by blast
qed

theorem stopPrint_twice_witness:
  "(writeCharacteristic initialApp = None \<or> isSimulationMode initialApp)
   \<and> presentationConnection initialApp = None
   \<and> stopPrint (writeCharacteristic initialApp) (isSimulationMode initialApp)
        (stopPrint (writeCharacteristic initialApp) (isSimulationMode initialApp) initialApp)
      = stopPrint (writeCharacteristic initialApp) (isSimulationMode initialApp) initialApp
   \<and> stopPrintError (writeCharacteristic initialApp) (isSimulationMode initialApp) initialApp
      = None"
proof -
  have h: "writeCharacteristic initialApp = None" "presentationConnection initialApp = None"
    by (simp_all add: initialApp_def)
  then have "presentationConnection initialApp \<noteq> Some ConnConnected" by simp
  with h stopPrint_twice [of "writeCharacteristic initialApp" "isSimulationMode initialApp"
    initialApp]
  show ?thesis by blast
qed

text \<open>
  The other send of \<open>CLEAR_IMAGE\<close>, in \<open>stopTestPrint\<close>, tests the state of the
  connection first; the one of \<open>stopPrint\<close> does not, and with a held connection that is
  not connected it throws, on the first call and on the second: the state
  \<open>connectingIdleApp\<close> is reachable and idle.
\<close>

lemma stopPrint_raises_on_connecting:
  "reachable connectingIdleApp \<and> \<not> isPrinting connectingIdleApp
   \<and> stopPrintError None False connectingIdleApp = Some InvalidStateError
   \<and> stopPrintError None False (stopPrint None False connectingIdleApp)
       = Some InvalidStateError"
proof -
  have "reachable (fire (ConnectionAvailable ConnConnecting) initialApp)"
    by (rule reachable_step[OF reachable_init]) simp
  then have "reachable connectingIdleApp" by (simp add: connectingIdleApp_def)
  moreover have "\<not> isPrinting connectingIdleApp
      \<and> stopPrintError None False connectingIdleApp = Some InvalidStateError
      \<and> stopPrintError None False (stopPrint None False connectingIdleApp)
          = Some InvalidStateError"
    by (simp add: connectingIdleApp_def setupConnection_def initialApp_def stopPrintError_eq
        stopPrint_eq)
  ultimately show ?thesis by blast
qed

text \<open>
  The claim as stated fails: with a paired device and nothing running, the second of
  two calls writes one more zero command.
\<close>

theorem stopPrint_second_call_counterexample:
  "\<not> isPrinting pairedIdleApp \<and> \<not> isWaitingForHopTrigger pairedIdleApp
   \<and> timeoutId pairedIdleApp = None \<and> intervalId pairedIdleApp = None
   \<and> traffic (stopPrint (writeCharacteristic pairedIdleApp) (isSimulationMode pairedIdleApp)
        (stopPrint (writeCharacteristic pairedIdleApp) (isSimulationMode pairedIdleApp)
           pairedIdleApp))
     = traffic (stopPrint (writeCharacteristic pairedIdleApp) (isSimulationMode pairedIdleApp)
         pairedIdleApp)
       @ [LinkWrite [0, 0, 0, 0, 0, 0]]"
  by (simp add: pairedIdleApp_def pairSucceeded_def initialApp_def stopPrint_eq stopCommand_def
      eval_nat_numeral)

text \<open>
  Claim C8. The disconnect listener clears the connection state and runs the stop
  path in the same turn: afterwards the controller is not connected, holds no
  characteristic, is neither printing nor waiting for a trigger, and has no timer
  pending.
\<close>

theorem gatt_disconnect_stops_print:
  "gattServerDisconnected wc sim s
     = stopPrint wc sim (s\<lparr>isConnected := False, writeCharacteristic := None\<rparr>)
   \<and> \<not> isConnected (gattServerDisconnected wc sim s)
   \<and> writeCharacteristic (gattServerDisconnected wc sim s) = None
   \<and> \<not> isPrinting (gattServerDisconnected wc sim s)
   \<and> \<not> isWaitingForHopTrigger (gattServerDisconnected wc sim s)
   \<and> timeoutId (gattServerDisconnected wc sim s) = None
   \<and> intervalId (gattServerDisconnected wc sim s) = None"
  by (simp add: gattServerDisconnected_def stopPrint_eq)

theorem gatt_disconnect_stops_print_witness:
  "isPrinting realPrintingApp \<and> isConnected realPrintingApp
   \<and> \<not> isPrinting (gattServerDisconnected None False realPrintingApp)
   \<and> \<not> isConnected (gattServerDisconnected None False realPrintingApp)
   \<and> writeCharacteristic (gattServerDisconnected None False realPrintingApp) = None"
proof -
  have "isPrinting realPrintingApp \<and> isConnected realPrintingApp"
    by (simp add: realPrintingApp_def handlePrint_def pairSucceeded_def initialApp_def
        writeValue_def)
  with gatt_disconnect_stops_print [of None False realPrintingApp]
  show ?thesis by blast
qed

section \<open>Simulated print timing\<close>



section \<open>Calibration offset\<close>

text \<open>
  Claim C9. A stored object whose \<open>x\<close> and \<open>y\<close> are numbers is folded into
  \<open>translateX\<close> and \<open>translateY\<close>; an absent item, a text that does not parse, or a
  value with a non-numeric \<open>x\<close> or \<open>y\<close> leaves the parameters as they were; whatever
  the try block throws is caught, and the parameters are then as they were.
\<close>

theorem load_calibration_offset:
  "(item = Some txt \<and> txt \<noteq> [] \<and> parse txt = Some (JObject members)
      \<and> map_of (rev members) ''x'' = Some (JNumber x)
      \<and> map_of (rev members) ''y'' = Some (JNumber y)
     \<longrightarrow> loadCalibrationOffset parse item a = a\<lparr>translateX := x, translateY := y\<rparr>)
   \<and> (item = None \<longrightarrow> loadCalibrationOffset parse item a = a)
   \<and> (item = Some txt \<and> parse txt = None \<longrightarrow> loadCalibrationOffset parse item a = a)
   \<and> (item = Some txt \<and> parse txt = Some v
        \<and> (\<not> isNumber (case getProperty v ''x'' of Inr p \<Rightarrow> p | Inl e \<Rightarrow> None)
           \<or> \<not> isNumber (case getProperty v ''y'' of Inr p \<Rightarrow> p | Inl e \<Rightarrow> None))
     \<longrightarrow> loadCalibrationOffset parse item a = a)
   \<and> (loadOffsetBody parse item a = Inl e \<longrightarrow> loadCalibrationOffset parse item a = a)"
  by (auto simp: loadCalibrationOffset_def loadOffsetBody_def getProperty_def isNumber_def
      numberOf_def split: option.splits sum.splits json.splits)

theorem load_calibration_offset_witness:
  "exampleParse ''offset'' = Some (JObject [(''x'', JNumber 3), (''y'', JNumber (- 4))])
   \<and> loadCalibrationOffset exampleParse (Some ''offset'') (alignmentParams initialApp)
       = (alignmentParams initialApp)\<lparr>translateX := 3, translateY := - 4\<rparr>
   \<and> exampleParse ''{'' = None
   \<and> loadCalibrationOffset exampleParse (Some ''{'') (alignmentParams initialApp)
       = alignmentParams initialApp"
  using load_calibration_offset [of "Some ''offset''" "''offset''" exampleParse
      "[(''x'', JNumber 3), (''y'', JNumber (- 4))]" 3 "- 4" "alignmentParams initialApp"]
    load_calibration_offset [of "Some ''{''" "''{''" exampleParse]
  by (simp add: exampleParse_def)

section \<open>Mutual exclusion of the sessions\<close>

lemma send_fields:
  "isPrinting (send m s) = isPrinting s" "isTestPrinting (send m s) = isTestPrinting s"
  "isCalibrating (send m s) = isCalibrating s"
  by (simp_all add: send_def)

lemma writeValue_fields:
  "isPrinting (writeValue c s) = isPrinting s" "isTestPrinting (writeValue c s) = isTestPrinting s"
  "isCalibrating (writeValue c s) = isCalibrating s"
  by (simp_all add: writeValue_def)

lemma stopPrint_fields:
  "\<not> isPrinting (stopPrint wc sim s)" "isTestPrinting (stopPrint wc sim s) = isTestPrinting s"
  "isCalibrating (stopPrint wc sim s) = isCalibrating s"
  by (simp_all add: stopPrint_eq)

lemma stopTestPrint_fields:
  "isPrinting (stopTestPrint s) = isPrinting s" "\<not> isTestPrinting (stopTestPrint s)"
  "isCalibrating (stopTestPrint s) = isCalibrating s"
  by (simp_all add: stopTestPrint_def Let_def send_def)

lemma runSimulationStep_fields:
  "isPrinting (runSimulationStep im m t pp wc sim s) \<Longrightarrow> isPrinting s"
  "isTestPrinting (runSimulationStep im m t pp wc sim s) = isTestPrinting s"
  "isCalibrating (runSimulationStep im m t pp wc sim s) = isCalibrating s"
  by (simp_all add: runSimulationStep_def Let_def send_def stopPrint_fields split: if_splits)

lemma handlePrint_fields:
  "isTestPrinting (handlePrint s) = isTestPrinting s"
  "isCalibrating (handlePrint s) = isCalibrating s"
  by (simp_all add: handlePrint_def stopPrint_fields runSimulationStep_fields writeValue_fields)

lemma handleTestPrint_fields:
  "isPrinting (handleTestPrint s) = isPrinting s"
  "isTestPrinting (handleTestPrint s) \<Longrightarrow> \<not> isCalibrating (handleTestPrint s)"
  "isCalibrating (handleTestPrint s) \<Longrightarrow> isCalibrating s"
  by (simp_all add: handleTestPrint_def stopTestPrint_fields Let_def split: if_splits)

lemma testPrintTick_fields:
  "isPrinting (testPrintTick im s) = isPrinting s"
  "isTestPrinting (testPrintTick im s) \<Longrightarrow> isTestPrinting s"
  "isCalibrating (testPrintTick im s) = isCalibrating s"
  by (simp_all add: testPrintTick_def stopTestPrint_fields Let_def send_def split: if_splits)

lemma handleCalibration_fields:
  "isPrinting (handleCalibration s) = isPrinting s"
  "isTestPrinting (handleCalibration s) \<Longrightarrow> isTestPrinting s"
  "isCalibrating (handleCalibration s) \<Longrightarrow> isTestPrinting (handleCalibration s)
     \<Longrightarrow> isCalibrating s \<and> isTestPrinting s"
  by (simp_all add: handleCalibration_def stopTestPrint_fields send_fields Let_def split: if_splits)

lemma closeHandler_fields:
  "\<not> isPrinting (closeHandler same wc sim s)"
  "isTestPrinting (closeHandler same wc sim s) \<Longrightarrow> isTestPrinting s"
  "isCalibrating (closeHandler same wc sim s) \<Longrightarrow> isCalibrating s"
  by (simp_all add: closeHandler_def Let_def stopTestPrint_fields stopPrint_fields
      split: option.splits if_splits)

lemma fire_exclusion:
  assumes "enabled ev s"
    and "\<not> (isTestPrinting s \<and> isCalibrating s)" and "\<not> (isPrinting s \<and> isTestPrinting s)"
  shows "\<not> (isTestPrinting (fire ev s) \<and> isCalibrating (fire ev s))
       \<and> \<not> (isPrinting (fire ev s) \<and> isTestPrinting (fire ev s))"
proof (cases ev)
  case ClickPrint
  with assms show ?thesis by (simp add: stopPrint_fields handlePrint_fields)
next
  case ClickTestPrint
  with assms show ?thesis using handleTestPrint_fields[of s] by auto
next
  case ClickCalibrate
  with assms show ?thesis using handleCalibration_fields[of s] by fastforce
next
  case SimulationTimeout
  with assms show ?thesis
    by (auto simp: simulationTimeout_def runSimulationStep_fields split: option.splits)
next
  case TestInterval
  with assms show ?thesis
    by (auto simp: testInterval_def testPrintTick_fields split: option.splits dest: testPrintTick_fields(2))
next
  case PrintWriteRejected
  with assms show ?thesis by (simp add: printWriteRejected_def)
next
  case (GattServerDisconnected wc sim)
  with assms show ?thesis by (simp add: gattServerDisconnected_def stopPrint_fields)
next
  case Esp32Notification
  with assms show ?thesis by (simp add: handleESP32Notification_def)
next
  case (PairSucceeded c)
  with assms show ?thesis by (simp add: pairSucceeded_def)
next
  case (ConnectionAvailable st)
  with assms show ?thesis by (simp add: setupConnection_def)
next
  case (ConnectionClosed same wc sim)
  with assms show ?thesis using closeHandler_fields[of same wc sim s] by auto
qed (use assms in simp_all)

lemma testPlaying_enabled: "allEnabled testPlayingEvents initialApp"
  by (simp add: testPlayingEvents_def initialApp_def setupConnection_def hasSlices_def
      isProjectionWindowConnected_def handleTestPrint_def testInterval_def testPrintTick_def
      send_def index_def Let_def)

lemma testPlaying_reachable: "reachable testPlayingApp"
  unfolding testPlayingApp_def by (rule reachable_run[OF reachable_init testPlaying_enabled])

text \<open>
  The exclusion that the code keeps. Test playback is never active together with
  calibration or with printing: this holds in every state reachable from the initial
  one through the buttons (under their \<open>disabled\<close> conditions), the timers and the
  notifications. \<open>handleTestPrint\<close> leaves calibration when it starts playback, and
  \<open>handleCalibration\<close> stops playback before it toggles calibration.
\<close>

lemma session_exclusion:
  "reachable s \<Longrightarrow>
     \<not> (isTestPrinting s \<and> isCalibrating s) \<and> \<not> (isPrinting s \<and> isTestPrinting s)
     \<and> (isTestPrinting (handleTestPrint s) \<longrightarrow> \<not> isCalibrating (handleTestPrint s))
     \<and> (presentationConnection s = Some ConnConnected \<longrightarrow>
          \<not> isTestPrinting (handleCalibration s))"
proof -
  assume "reachable s"
  then have "\<not> (isTestPrinting s \<and> isCalibrating s) \<and> \<not> (isPrinting s \<and> isTestPrinting s)"
  proof (induction rule: reachable.induct)
    case reachable_init
    show ?case by (simp add: initialApp_def)
  next
    case (reachable_step s ev)
    then show ?case using fire_exclusion[of ev s] by blast
  qed
  moreover have "isTestPrinting (handleTestPrint s) \<longrightarrow> \<not> isCalibrating (handleTestPrint s)"
    using handleTestPrint_fields(2) by blast
  moreover have "presentationConnection s = Some ConnConnected \<longrightarrow>
      \<not> isTestPrinting (handleCalibration s)"
    by (simp add: handleCalibration_def Let_def send_fields stopTestPrint_fields)
  ultimately show ?thesis by blast
qed

lemma session_exclusion_testPlaying:
  "reachable testPlayingApp \<and> isTestPrinting testPlayingApp
   \<and> \<not> isCalibrating testPlayingApp \<and> \<not> isPrinting testPlayingApp"
proof -
  have "isTestPrinting testPlayingApp"
    by (simp add: testPlayingApp_def testPlayingEvents_def initialApp_def setupConnection_def
        handleTestPrint_def testInterval_def testPrintTick_def send_def index_def Let_def)
  with session_exclusion[OF testPlaying_reachable] testPlaying_reachable
  show ?thesis by blast
qed

text \<open>
  Claim C2. At most one of printing, test playback and calibration is to be active,
  and each start operation is to stop the others first. The code keeps test playback
  apart from the other two and misses the pair printing and calibration:
  \<open>handleCalibration\<close> stops test playback and not a print, \<open>handlePrint\<close> stops
  nothing, and the Calibrate button stays enabled during a print. With simulation mode
  on, the second monitor connected and one image loaded, Print followed by Calibrate,
  and Calibrate followed by Print, each reach a state that is printing and calibrating
  at once.
\<close>

theorem printing_and_calibrating_reachable:
  "reachable printingAndCalibrating \<and> isPrinting printingAndCalibrating
   \<and> isCalibrating printingAndCalibrating
   \<and> reachable calibratingAndPrinting \<and> isPrinting calibratingAndPrinting
   \<and> isCalibrating calibratingAndPrinting"
proof -
  have "allEnabled [SetSimulationMode True, ConnectionAvailable ConnConnected,
          SetProjectionImages [''data:image/png;base64,AA==''], ClickPrint, ClickCalibrate]
          initialApp"
    by (simp add: initialApp_def setupConnection_def hasSlices_def
        isProjectionWindowConnected_def handlePrint_def runSimulationStep_def Let_def send_def)
  then have "reachable printingAndCalibrating"
    unfolding printingAndCalibrating_def by (rule reachable_run[OF reachable_init])
  moreover have "isPrinting printingAndCalibrating \<and> isCalibrating printingAndCalibrating"
    by (simp add: printingAndCalibrating_def initialApp_def setupConnection_def
        handlePrint_def runSimulationStep_def handleCalibration_def Let_def send_def)
  moreover have "allEnabled [SetSimulationMode True, ConnectionAvailable ConnConnected,
          SetProjectionImages [''data:image/png;base64,AA==''], ClickCalibrate, ClickPrint]
          initialApp"
    by (simp add: initialApp_def setupConnection_def hasSlices_def
        isProjectionWindowConnected_def handleCalibration_def Let_def send_def)
  then have "reachable calibratingAndPrinting"
    unfolding calibratingAndPrinting_def by (rule reachable_run[OF reachable_init])
  moreover have "isPrinting calibratingAndPrinting \<and> isCalibrating calibratingAndPrinting"
    by (simp add: calibratingAndPrinting_def initialApp_def setupConnection_def
        handlePrint_def runSimulationStep_def handleCalibration_def Let_def send_def)
  ultimately show ?thesis by simp
qed

section \<open>Frame lookups\<close>

lemma stopPrint_bounds: "framesInBounds s \<Longrightarrow> framesInBounds (stopPrint wc sim s)"
  by (simp add: framesInBounds_def stopPrint_eq split: option.splits)

lemma stopTestPrint_bounds: "framesInBounds s \<Longrightarrow> framesInBounds (stopTestPrint s)"
  by (simp add: framesInBounds_def stopTestPrint_eq split: option.splits)

lemma runSimulationStep_bounds:
  "framesInBounds s \<Longrightarrow> framesInBounds (runSimulationStep im m t pp wc sim s)"
  by (simp add: runSimulationStep_def Let_def stopPrint_bounds)
     (simp add: framesInBounds_def send_def index_def split: option.splits)

lemma handlePrint_bounds: "framesInBounds s \<Longrightarrow> framesInBounds (handlePrint s)"
proof -
  assume a: "framesInBounds s"
  then have "framesInBounds (s\<lparr>isPrinting := True, currentFrame := 0\<rparr>)"
    by (simp add: framesInBounds_def split: option.splits)
  moreover have "framesInBounds (writeValue c (s\<lparr>isPrinting := True\<rparr>))" for c
    using a by (simp add: framesInBounds_def writeValue_def split: option.splits)
  ultimately show ?thesis
    using a by (simp add: handlePrint_def stopPrint_bounds runSimulationStep_bounds)
qed

lemma handleTestPrint_bounds: "framesInBounds s \<Longrightarrow> framesInBounds (handleTestPrint s)"
  by (simp add: handleTestPrint_def Let_def stopTestPrint_bounds)
     (simp add: framesInBounds_def split: option.splits)

lemma next_frame_less: "(i::nat) < n \<Longrightarrow> Suc i mod n < n"
  by (cases n) simp_all

lemma testPrintTick_bounds:
  "framesInBounds s \<Longrightarrow> testPrintInterval s = Some t
     \<Longrightarrow> framesInBounds (testPrintTick (intervalImages t) s)"
  by (simp add: testPrintTick_def Let_def stopTestPrint_bounds)
     (auto simp: framesInBounds_def send_def index_def next_frame_less split: option.splits)

lemma handleCalibration_bounds: "framesInBounds s \<Longrightarrow> framesInBounds (handleCalibration s)"
  by (simp add: handleCalibration_def Let_def)
     (simp add: framesInBounds_def send_def stopTestPrint_eq split: option.splits)

lemma closeHandler_bounds: "framesInBounds s \<Longrightarrow> framesInBounds (closeHandler same wc sim s)"
  by (simp add: closeHandler_def Let_def split: option.splits)
     (simp add: framesInBounds_def stopTestPrint_eq stopPrint_eq split: option.splits)

lemma fire_bounds: "framesInBounds s \<Longrightarrow> framesInBounds (fire ev s)"
proof (cases ev)
  case SimulationTimeout
  assume "framesInBounds s"
  with SimulationTimeout show ?thesis
    by (simp add: simulationTimeout_def runSimulationStep_bounds split: option.splits)
next
  case TestInterval
  assume "framesInBounds s"
  with TestInterval show ?thesis
    by (simp add: testInterval_def testPrintTick_bounds split: option.splits)
next
  case PrintWriteRejected
  assume "framesInBounds s"
  with PrintWriteRejected show ?thesis by (simp add: printWriteRejected_def framesInBounds_def split: option.splits)
next
  case (GattServerDisconnected wc sim)
  assume a: "framesInBounds s"
  then have "framesInBounds (s\<lparr>isConnected := False, writeCharacteristic := None\<rparr>)"
    by (simp add: framesInBounds_def split: option.splits)
  with GattServerDisconnected show ?thesis
    by (simp add: gattServerDisconnected_def stopPrint_bounds)
next
  case Esp32Notification
  assume "framesInBounds s"
  with Esp32Notification show ?thesis by (simp add: handleESP32Notification_def framesInBounds_def split: option.splits)
qed (simp_all add: handlePrint_bounds stopPrint_bounds handleTestPrint_bounds
      handleCalibration_bounds closeHandler_bounds,
     simp_all add: framesInBounds_def pairSucceeded_def setupConnection_def split: option.splits)

lemma reachable_bounds: "reachable s \<Longrightarrow> framesInBounds s"
proof (induction rule: reachable.induct)
  case reachable_init
  show ?case by (simp add: framesInBounds_def initialApp_def)
next
  case (reachable_step s ev)
  then show ?case by (simp add: fire_bounds)
qed

text \<open>
  Claim C10. In every reachable state the counter of a pending test playback is a
  valid index of the image list the interval closed over, the counter of a pending
  simulated print is at most the length of its list, and no \<open>UPDATE_IMAGE\<close> with an
  undefined image was ever sent. A simulation step looks an image up only below the
  frame count, and at the frame count it is the stop path.
\<close>

theorem frame_lookups_in_bounds:
  "reachable s \<Longrightarrow>
     (\<forall>t. testPrintInterval s = Some t \<longrightarrow>
        testFrame s < length (intervalImages t)
        \<and> index (intervalImages t) (testFrame s) = Some (intervalImages t ! testFrame s)
        \<and> (testFrame s + 1) mod length (intervalImages t) < length (intervalImages t))
     \<and> (\<forall>t. timeoutId s = Some t \<longrightarrow> currentFrame s \<le> length (timerImages t))
     \<and> ChannelSend (UPDATE_IMAGE None) \<notin> set (traffic s)
     \<and> (currentFrame s < length images \<longrightarrow>
          index images (currentFrame s) = Some (images ! currentFrame s))
     \<and> (length images \<le> currentFrame s \<longrightarrow>
          runSimulationStep images mode tpf pp wc sim s = stopPrint wc sim s)"
proof -
  assume "reachable s"
  then have b: "framesInBounds s" by (rule reachable_bounds)
  have "\<forall>t. testPrintInterval s = Some t \<longrightarrow>
        testFrame s < length (intervalImages t)
        \<and> index (intervalImages t) (testFrame s) = Some (intervalImages t ! testFrame s)
        \<and> (testFrame s + 1) mod length (intervalImages t) < length (intervalImages t)"
    using b by (auto simp: framesInBounds_def index_def next_frame_less)
  moreover have "\<forall>t. timeoutId s = Some t \<longrightarrow> currentFrame s \<le> length (timerImages t)"
    using b by (auto simp: framesInBounds_def)
  moreover have "ChannelSend (UPDATE_IMAGE None) \<notin> set (traffic s)"
    using b by (simp add: framesInBounds_def)
  moreover have "currentFrame s < length images \<longrightarrow>
      index images (currentFrame s) = Some (images ! currentFrame s)"
    by (simp add: index_def)
  moreover have "length images \<le> currentFrame s \<longrightarrow>
      runSimulationStep images mode tpf pp wc sim s = stopPrint wc sim s"
    by (simp add: runSimulationStep_def)
  ultimately show ?thesis by blast
qed

theorem frame_lookups_in_bounds_witness:
  "reachable testPlayingApp
   \<and> testPrintInterval testPlayingApp \<noteq> None
   \<and> testFrame testPlayingApp = 1
   \<and> traffic testPlayingApp =
       [ChannelSend (UPDATE_IMAGE (Some ''data:image/png;base64,AA=='')),
        ChannelSend (UPDATE_IMAGE (Some ''data:image/png;base64,AQ=='')),
        ChannelSend (UPDATE_IMAGE (Some ''data:image/png;base64,AA==''))]
   \<and> ChannelSend (UPDATE_IMAGE None) \<notin> set (traffic testPlayingApp)"
proof -
  have "testPrintInterval testPlayingApp \<noteq> None \<and> testFrame testPlayingApp = 1
    \<and> traffic testPlayingApp =
       [ChannelSend (UPDATE_IMAGE (Some ''data:image/png;base64,AA=='')),
        ChannelSend (UPDATE_IMAGE (Some ''data:image/png;base64,AQ=='')),
        ChannelSend (UPDATE_IMAGE (Some ''data:image/png;base64,AA==''))]"
    by (simp add: testPlayingApp_def testPlayingEvents_def initialApp_def setupConnection_def
        handleTestPrint_def testInterval_def testPrintTick_def send_def index_def Let_def)
  with frame_lookups_in_bounds[OF testPlaying_reachable] testPlaying_reachable
  show ?thesis by blast
qed

section \<open>Import failures\<close>

text \<open>
  Claim C1, amended. An import that fails at the settings step (no \<open>settings.json\<close>,
  or one that does not parse) changes nothing. An import that fails after the
  settings were parsed (an image entry cannot be read) has already replaced the
  slicing, projection and alignment parameters by those of the archive, and has
  changed nothing else. On every failure the image set, the file name, the STL file,
  the slicing status and statistics and the active tab keep their values.
\<close>

theorem import_failure_state:
  "(settingsFile z = None \<or> settingsFile z = Some Malformed \<longrightarrow>
      fst (handleImportJob z s) \<noteq> None \<and> snd (handleImportJob z s) = s)
   \<and> (settingsFile z = Some (Text st) \<and> fst (handleImportJob z s) \<noteq> None \<longrightarrow>
        snd (handleImportJob z s)
          = s\<lparr>slicingParams := settingsSlicing st, projectionParams := settingsProjection st,
              alignmentParams := settingsAlignment st\<rparr>)
   \<and> (fst (handleImportJob z s) \<noteq> None \<longrightarrow>
        projectionImages (snd (handleImportJob z s)) = projectionImages s
        \<and> fileName (snd (handleImportJob z s)) = fileName s
        \<and> stlFile (snd (handleImportJob z s)) = stlFile s
        \<and> slicingStatus (snd (handleImportJob z s)) = slicingStatus s
        \<and> slicingStatsCount (snd (handleImportJob z s)) = slicingStatsCount s
        \<and> slicingStatsTime (snd (handleImportJob z s)) = slicingStatsTime s
        \<and> activeTab (snd (handleImportJob z s)) = activeTab s)"
  by (simp add: handleImportJob_def Let_def split: option.splits settingsJson.splits)

theorem import_failure_state_witness:
  "settingsFile noSettingsArchive = None
   \<and> snd (handleImportJob noSettingsArchive initialApp) = initialApp
   \<and> settingsFile unreadableArchive = Some (Text otherSettings)
   \<and> fst (handleImportJob unreadableArchive initialApp) \<noteq> None
   \<and> snd (handleImportJob unreadableArchive initialApp)
       = initialApp\<lparr>slicingParams := settingsSlicing otherSettings,
           projectionParams := settingsProjection otherSettings,
           alignmentParams := settingsAlignment otherSettings\<rparr>
   \<and> projectionImages (snd (handleImportJob unreadableArchive initialApp))
       = projectionImages initialApp"
proof -
  have a: "settingsFile noSettingsArchive = None"
    by (simp add: noSettingsArchive_def)
  have b: "settingsFile unreadableArchive = Some (Text otherSettings)"
    by (simp add: unreadableArchive_def)
  have c: "fst (handleImportJob unreadableArchive initialApp) \<noteq> None"
    by (simp add: handleImportJob_def unreadableArchive_def Let_def toLowerCase_def
        less_eq_char_def endsWith_def)
  from import_failure_state[where z = noSettingsArchive and s = initialApp]
    import_failure_state[where z = unreadableArchive and s = initialApp and st = otherSettings]
    a b c
  show ?thesis by blast
qed

text \<open>
  The claim as stated fails: when an image entry cannot be read, the import fails and
  the slicing parameters are those of the archive, no longer the ones before the
  import.
\<close>

theorem import_partial_mutation_counterexample:
  "fst (handleImportJob unreadableArchive initialApp) = Some EntryUnreadable
   \<and> slicingParams (snd (handleImportJob unreadableArchive initialApp)) \<noteq> slicingParams initialApp"
  by (simp add: handleImportJob_def unreadableArchive_def otherSettings_def
      initialApp_def Let_def toLowerCase_def less_eq_char_def endsWith_def)

text \<open>
  An archive with settings and no image entry does not fail: it is imported as a
  finished job of zero images.
\<close>

lemma import_without_images:
  "fst (handleImportJob noImagesArchive initialApp) = None
   \<and> projectionImages (snd (handleImportJob noImagesArchive initialApp)) = []
   \<and> slicingStatus (snd (handleImportJob noImagesArchive initialApp)) = StatusComplete
   \<and> slicingStatsCount (snd (handleImportJob noImagesArchive initialApp)) = Some 0"
  by (simp add: handleImportJob_def noImagesArchive_def Let_def)

section \<open>Entry names and their order\<close>














lemma toLowerCase_append: "toLowerCase (a @ b) = toLowerCase a @ toLowerCase b"
  by (simp add: toLowerCase_def)

lemma toLowerCase_png: "toLowerCase ''.png'' = ''.png''"
  by (simp add: toLowerCase_def less_eq_char_def)

lemma endsWith_append: "endsWith (xs @ suffix) suffix"
  by (simp add: endsWith_def)

lemma sliceName_png: "endsWith (toLowerCase (sliceName i)) ''.png''"
proof -
  have "toLowerCase (sliceName i)
      = toLowerCase (''slice_'' @ padStart 4 CHR ''0'' (decimal i)) @ ''.png''"
    unfolding sliceName_def by (simp only: toLowerCase_append toLowerCase_png append_assoc)
  then show ?thesis by (simp only: endsWith_append)
qed

section \<open>Base64 codec\<close>






























section \<open>Archive entries\<close>



lemma loadImages_all:
  "\<forall>e \<in> set es. content e \<noteq> None \<Longrightarrow>
     loadImages es = Some (map (\<lambda>e. (relativePath e, dataUrlPrefix @ base64Encode (the (content e)))) es)"
  by (induction es) auto




lemma import_readable:
  assumes "settingsFile z = Some (Text st)" and "projectionsFolder z = Some es"
    and "\<forall>e \<in> set es. \<not> dir e \<and> endsWith (toLowerCase (relativePath e)) ''.png''
           \<and> content e \<noteq> None"
  shows "fst (handleImportJob z s') = None"
    and "slicingParams (snd (handleImportJob z s')) = settingsSlicing st"
    and "projectionParams (snd (handleImportJob z s')) = settingsProjection st"
    and "alignmentParams (snd (handleImportJob z s')) = settingsAlignment st"
    and "projectionImages (snd (handleImportJob z s'))
          = map snd (sort_key fst
              (map (\<lambda>e. (relativePath e, dataUrlPrefix @ base64Encode (the (content e)))) es))"
proof -
  have f: "filter (\<lambda>e. \<not> dir e \<and> endsWith (toLowerCase (relativePath e)) ''.png'') es = es"
    using assms(3) by (simp add: filter_id_conv)
  have l: "loadImages es = Some (map (\<lambda>e. (relativePath e, dataUrlPrefix @ base64Encode (the (content e)))) es)"
    using assms(3) by (simp add: loadImages_all)
  show "fst (handleImportJob z s') = None"
    and "slicingParams (snd (handleImportJob z s')) = settingsSlicing st"
    and "projectionParams (snd (handleImportJob z s')) = settingsProjection st"
    and "alignmentParams (snd (handleImportJob z s')) = settingsAlignment st"
    and "projectionImages (snd (handleImportJob z s'))
          = map snd (sort_key fst
              (map (\<lambda>e. (relativePath e, dataUrlPrefix @ base64Encode (the (content e)))) es))"
    by (simp_all add: handleImportJob_def assms(1,2) f l Let_def)
qed

lemma exportEntry_fields:
  "relativePath (exportEntry images i) = sliceName i" "\<not> dir (exportEntry images i)"
  by (simp_all add: exportEntry_def Let_def)








text \<open>
  Outside the data URLs of byte sequences the round trip is lost: a text with stray
  bits comes back as the encoding of its bytes, and a text that does not decode makes
  the export fail.
\<close>

lemma export_of_other_text:
  "handleExportJob looseImageApp = Inr (exportArchive looseImageApp)
   \<and> fst (handleImportJob (exportArchive looseImageApp) initialApp) = None
   \<and> projectionImages (snd (handleImportJob (exportArchive looseImageApp) initialApp))
       = [imageA]
   \<and> imageA \<noteq> looseImage
   \<and> handleExportJob brokenImageApp = Inl ExportFailed"
proof -
  have c: "content (exportEntry [looseImage] 0) = Some [0]"
    by (simp add: exportEntry_def Let_def looseImage_def index_def base64Decode_def
        padding_def charAt_def keyStr_def)
  have b: "content (exportEntry [brokenImage] 0) = None"
    by (simp add: exportEntry_def Let_def brokenImage_def index_def base64Decode_def keyStr_def)
  have e: "handleExportJob looseImageApp = Inr (exportArchive looseImageApp)"
    by (simp add: handleExportJob_def looseImageApp_def c)
  have f: "handleExportJob brokenImageApp = Inl ExportFailed"
    by (simp add: handleExportJob_def brokenImageApp_def b)
  obtain st where z1: "settingsFile (exportArchive looseImageApp) = Some (Text st)"
    by (simp add: exportArchive_def)
  have z2: "projectionsFolder (exportArchive looseImageApp) = Some [exportEntry [looseImage] 0]"
    by (simp add: exportArchive_def looseImageApp_def)
  have ok: "\<forall>e \<in> set [exportEntry [looseImage] 0].
      \<not> dir e \<and> endsWith (toLowerCase (relativePath e)) ''.png'' \<and> content e \<noteq> None"
    by (simp add: exportEntry_fields sliceName_png c)
  note i = import_readable[OF z1 z2 ok, of initialApp]
  have "projectionImages (snd (handleImportJob (exportArchive looseImageApp) initialApp))
      = [imageA]"
    unfolding i(5)
    by (simp add: c imageA_def dataUrlPrefix_def encodeGroup_def charAt_def keyStr_def)
  moreover have "imageA \<noteq> looseImage" by (simp add: imageA_def looseImage_def)
  ultimately show ?thesis using e f i(1) by simp
qed



section \<open>Export and import\<close>




end
